theory Spec2Isabelle
  imports Main "HOL-Library.Sublist"
begin

section \<open>Strings of code points\<close>

text \<open>
  A Python \<^verbatim>\<open>str\<close> is a sequence of Unicode code points, so it is modelled as a list of
  natural numbers. \<open>ustr\<close> reads an ASCII literal of the source as such a string.
\<close>

type_synonym codepoint = nat
type_synonym str = "codepoint list"
type_synonym bytes = "nat list"

definition ustr :: "string \<Rightarrow> str" where
  "ustr s = map of_char s"

text \<open>\<^verbatim>\<open>string.ascii_letters\<close> and \<^verbatim>\<open>string.digits\<close> of the Python standard library.\<close>

definition ascii_lowercase :: string where
  "ascii_lowercase = ''abcdefghijklmnopqrstuvwxyz''"

definition ascii_uppercase :: string where
  "ascii_uppercase = ''ABCDEFGHIJKLMNOPQRSTUVWXYZ''"

definition ascii_letters :: string where
  "ascii_letters = ascii_lowercase @ ascii_uppercase"

definition digits :: string where
  "digits = ''0123456789''"

section \<open>Unicode normalisation (\<^verbatim>\<open>unicodedata.normalize("NFKD", s)\<close>)\<close>

text \<open>
  The normaliser belongs to the Python standard library. Its algorithm is embedded here
  and the Unicode character database it reads is a parameter: \<open>decomposition u c\<close> is the
  full compatibility decomposition of the code point \<open>c\<close> (the code point itself when it
  has none) and \<open>combining u c\<close> its canonical combining class.
  NFKD replaces every code point by its decomposition and then puts every run of
  combining marks (class \<open>\<noteq> 0\<close>) into ascending class order, keeping the order of marks
  of equal class.
\<close>

record ucd =
  decomposition :: "codepoint \<Rightarrow> codepoint list"
  combining :: "codepoint \<Rightarrow> nat"

fun insert_mark :: "(codepoint \<Rightarrow> nat) \<Rightarrow> codepoint \<Rightarrow> codepoint list \<Rightarrow> codepoint list" where
  "insert_mark ccc c [] = [c]"
| "insert_mark ccc c (d # ds) =
     (if ccc c \<noteq> 0 \<and> ccc d \<noteq> 0 \<and> ccc d < ccc c
      then d # insert_mark ccc c ds
      else c # d # ds)"

fun canonical_ordering :: "(codepoint \<Rightarrow> nat) \<Rightarrow> codepoint list \<Rightarrow> codepoint list" where
  "canonical_ordering ccc [] = []"
| "canonical_ordering ccc (c # cs) = insert_mark ccc c (canonical_ordering ccc cs)"

definition normalize_NFKD :: "ucd \<Rightarrow> str \<Rightarrow> str" where
  "normalize_NFKD u s = canonical_ordering (combining u) (concat (map (decomposition u) s))"

text \<open>
  The one fact about the database that the sanitizer's properties rest on: the 128 ASCII
  code points have no decomposition and combining class 0.
\<close>

definition ascii_stable :: "ucd \<Rightarrow> bool" where
  "ascii_stable u \<longleftrightarrow> (\<forall>c<128. decomposition u c = [c] \<and> combining u c = 0)"

text \<open>
  A fragment of the database (\<^verbatim>\<open>UnicodeData.txt\<close>): the entries of
  U+00A0 NO-BREAK SPACE, U+00A8 DIAERESIS, U+00E9 LATIN SMALL LETTER E WITH ACUTE,
  U+1E0B/U+1E0D (d with dot above / below) and of the combining marks involved; every
  other code point is left as a starter without decomposition.
\<close>

definition ucd_fragment :: ucd where
  "ucd_fragment = \<lparr>
     decomposition = (\<lambda>c.
       if c = 0xA0 then [0x20]
       else if c = 0xA8 then [0x20, 0x308]
       else if c = 0xE9 then [0x65, 0x301]
       else if c = 0x1E0B then [0x64, 0x307]
       else if c = 0x1E0D then [0x64, 0x323]
       else [c]),
     combining = (\<lambda>c.
       if c = 0x301 \<or> c = 0x307 \<or> c = 0x308 then 230
       else if c = 0x323 then 220
       else 0) \<rparr>"

section \<open>Filename Sanitizer (\<^verbatim>\<open>file_safe_name\<close>)\<close>

definition FILENAME_STRING_format :: "str \<Rightarrow> str \<Rightarrow> str" where
  \<comment> \<open>\<^verbatim>\<open>FILENAME_STRING.format(effect=effect, author=display_name)\<close>\<close>
  "FILENAME_STRING_format effect author = effect @ ustr ''_'' @ author @ ustr ''.png''"

definition replace_spaces :: "str \<Rightarrow> str" where
  \<comment> \<open>\<^verbatim>\<open>file_name.replace(" ", "_")\<close>\<close>
  "replace_spaces s = map (\<lambda>c. if c = of_char CHR '' '' then of_char CHR ''_'' else c) s"

definition encode_ascii_ignore :: "str \<Rightarrow> str" where
  \<comment> \<open>\<^verbatim>\<open>.encode("ASCII", "ignore").decode()\<close>: code points above 127 vanish\<close>
  "encode_ascii_ignore s = filter (\<lambda>c. c < 128) s"

definition valid_filename_chars :: str where
  "valid_filename_chars = ustr (''-_. '' @ ascii_letters @ digits)"

definition file_safe_name :: "ucd \<Rightarrow> str \<Rightarrow> str \<Rightarrow> str" where
  "file_safe_name u effect display_name =
     (let file_name = FILENAME_STRING_format effect display_name;
          file_name = replace_spaces file_name;
          cleaned_filename = encode_ascii_ignore (normalize_NFKD u file_name);
          cleaned_filename = filter (\<lambda>c. c \<in> set valid_filename_chars) cleaned_filename
      in cleaned_filename)"

text \<open>The effect tags that the commands of the module pass to the sanitizer.\<close>

definition effect_tags :: "str list" where
  "effect_tags = [ustr ''eightbit_avatar'', ustr ''easterified_avatar'',
                  ustr ''pride_avatar'', ustr ''spooky_avatar'']"

text \<open>
  The character class \<^verbatim>\<open>[A-Za-z0-9._-]\<close> and the regular expression
  \<^verbatim>\<open>^[A-Za-z0-9._-]*\.png$\<close> of the filename contract. The four characters of
  \<^verbatim>\<open>.png\<close> are in the class themselves, so a string matches exactly when it ends in
  \<^verbatim>\<open>.png\<close> and all characters before that suffix are in the class.
\<close>

definition filename_class :: "codepoint \<Rightarrow> bool" where
  "filename_class c \<longleftrightarrow>
     (65 \<le> c \<and> c \<le> 90) \<or> (97 \<le> c \<and> c \<le> 122) \<or> (48 \<le> c \<and> c \<le> 57)
     \<or> c = 46 \<or> c = 95 \<or> c = 45"

definition matches_filename_regex :: "str \<Rightarrow> bool" where
  "matches_filename_regex s \<longleftrightarrow>
     suffix (ustr ''.png'') s \<and> list_all filename_class (take (length s - 4) s)"

definition non_ascii_only :: "str \<Rightarrow> bool" where
  "non_ascii_only s \<longleftrightarrow> list_all (\<lambda>c. 128 \<le> c) s"

definition ascii_safe :: "str \<Rightarrow> bool" where
  "ascii_safe s \<longleftrightarrow> list_all (\<lambda>c. filename_class c \<or> c = 32) s"

section \<open>Values, faults and collaborators\<close>

text \<open>
  The faults the module distinguishes. \<open>HTTPException\<close> stands for any
  \<^verbatim>\<open>discord.HTTPException\<close> that is not a \<^verbatim>\<open>NotFound\<close> (its subclass, caught first);
  \<open>OtherFault\<close> for any exception that no handler of the module names.
\<close>

datatype fault =
    NotFound
  | HTTPException
  | ClientConnectorError
  | InvalidURL
  | BadArgument str
  | OtherFault str

record embed =
  title :: "str option"
  description :: "str option"
  colour :: "nat option"
  image_url :: "str option"
  footer_text :: "str option"
  footer_icon :: "nat option"
  author_name :: "str option"
  author_icon :: "nat option"

text \<open>
  The Python values that flow through the commands: \<open>PMessage\<close> is the message object
  that the real \<^verbatim>\<open>ctx.send\<close> returns, \<open>PObject\<close> any other opaque object (a generated
  image, a \<^verbatim>\<open>discord.File\<close>, a \<^verbatim>\<open>discord.Colour\<close>).
\<close>

datatype py_value =
    PNone
  | PStr str
  | PInt int
  | PObject nat
  | PMessage
  | PEmbed embed

type_synonym kwargs = "(string \<times> py_value) list"

fun isinstance_str :: "py_value \<Rightarrow> bool" where
  "isinstance_str (PStr s) = True"
| "isinstance_str v = False"

text \<open>
  A command invoked through \<^verbatim>\<open>ctx.invoke\<close> is code outside this module. It is modelled
  by what it can do to the module: call \<^verbatim>\<open>ctx.send(*args, **kwargs)\<close> and go on with
  the value that call returned, return a value, or raise.
\<close>

datatype script =
    Return py_value
  | Raise fault
  | Send "py_value list" kwargs "py_value \<Rightarrow> script"

datatype effect_fn =
    Eight_bitify_effect
  | Easterify_effect
  | Pridify_effect
  | Get_random_effect

text \<open>
  One call \<^verbatim>\<open>in_executor(PfpEffects.apply_effect, image_bytes, effect, file_name, *args)\<close>.
\<close>

datatype offload_call = Apply_effect bytes effect_fn str "py_value list"

record member =
  member_id :: nat
  member_name :: str
  display_name :: str

record ctx =
  author :: member

datatype log_record =
    Log_trace_executor
  | Log_debug_member_left nat
  | Log_exception_retrieve nat

text \<open>
  Everything the module reads from outside: the Unicode database, the constants of
  \<^verbatim>\<open>bot.constants\<close>, the flag mapping loaded from \<^verbatim>\<open>gender_options.json\<close>,
  \<^verbatim>\<open>str.lower\<close>, and the outcome of every call to the platform, to the HTTP session,
  to the effect module and to the command registry.
  \<open>http_get env url\<close> is either the fault raised inside the \<^verbatim>\<open>try\<close> block before a
  response is there, or the response's status with the outcome of \<^verbatim>\<open>response.read()\<close>.
\<close>

record env =
  unicode :: ucd
  cross_mark :: str
  soft_red :: nat
  GENDER_OPTIONS :: "str \<rightharpoonup> str"
  str_lower :: "str \<Rightarrow> str"
  guild_fetch_member :: "nat \<Rightarrow> fault + member"
  read_avatar :: "member \<Rightarrow> nat option \<Rightarrow> fault + bytes"
  http_get :: "str \<Rightarrow> fault + (int \<times> (fault + bytes))"
  apply_effect :: "offload_call \<Rightarrow> fault + py_value"
  get_command :: "string \<Rightarrow> (py_value list \<Rightarrow> script) option"

section \<open>State and effects\<close>

text \<open>
  \<open>ctx_send\<close> is what the attribute \<^verbatim>\<open>ctx.send\<close> refers to: the original output function
  or the nested stand-in \<^verbatim>\<open>send\<close> of \<^verbatim>\<open>avatareasterify\<close>. \<open>sent\<close> lists the calls the
  real output sink received, \<open>offloaded\<close> the calls submitted to the worker pool,
  \<open>invoked\<close> the commands run through \<^verbatim>\<open>ctx.invoke\<close>, and \<open>assigned\<close> the values
  that were assigned to the attribute \<^verbatim>\<open>ctx.send\<close>, in order.
\<close>

datatype send_fn = Real_send | Fake_send

record world =
  ctx_send :: send_fn
  sent :: "(py_value list \<times> kwargs) list"
  offloaded :: "offload_call list"
  invoked :: "(string \<times> py_value list) list"
  assigned :: "send_fn list"
  logged :: "log_record list"

type_synonym 'a io = "world \<Rightarrow> (fault + 'a) \<times> world"

definition returns :: "'a \<Rightarrow> 'a io" where
  "returns x w = (Inr x, w)"

definition raises :: "fault \<Rightarrow> 'a io" where
  "raises f w = (Inl f, w)"

definition bind_io :: "'a io \<Rightarrow> ('a \<Rightarrow> 'b io) \<Rightarrow> 'b io" where
  "bind_io m k w = (case m w of (Inl f, w') \<Rightarrow> (Inl f, w') | (Inr x, w') \<Rightarrow> k x w')"

definition await :: "fault + 'a \<Rightarrow> 'a io" where
  \<comment> \<open>the outcome of a call to a collaborator: its value, or its fault raised here\<close>
  "await r w = (r, w)"

definition send :: "py_value list \<Rightarrow> kwargs \<Rightarrow> py_value" where
  \<comment> \<open>the nested \<^verbatim>\<open>send(*args, **kwargs)\<close>: \<^verbatim>\<open>if args: return args[0]\<close>, else \<^verbatim>\<open>None\<close>\<close>
  "send args kw = (case args of [] \<Rightarrow> PNone | a # _ \<Rightarrow> a)"

definition call_send :: "send_fn \<Rightarrow> py_value list \<Rightarrow> kwargs \<Rightarrow> py_value io" where
  "call_send f args kw w =
     (case f of
        Real_send \<Rightarrow> (Inr PMessage, w\<lparr>sent := sent w @ [(args, kw)]\<rparr>)
      | Fake_send \<Rightarrow> (Inr (send args kw), w))"

definition ctx_send_call :: "py_value list \<Rightarrow> kwargs \<Rightarrow> py_value io" where
  \<comment> \<open>\<^verbatim>\<open>await ctx.send(...)\<close>: the attribute is looked up when the call is made\<close>
  "ctx_send_call args kw w = call_send (ctx_send w) args kw w"

primrec run_script :: "script \<Rightarrow> py_value io" where
  "run_script (Return v) = returns v"
| "run_script (Raise f) = raises f"
| "run_script (Send args kw k) = bind_io (ctx_send_call args kw) (\<lambda>r. run_script (k r))"

definition ctx_invoke :: "env \<Rightarrow> string \<Rightarrow> py_value list \<Rightarrow> py_value io" where
  \<comment> \<open>\<^verbatim>\<open>await ctx.invoke(self.bot.get_command(name), *args)\<close>; an unregistered name gives
      \<^verbatim>\<open>None\<close>, and invoking \<^verbatim>\<open>None\<close> raises\<close>
  "ctx_invoke env cmd args w =
     (case get_command env cmd of
        None \<Rightarrow> (Inl (OtherFault (ustr ''AttributeError'')), w)
      | Some body \<Rightarrow> run_script (body args) (w\<lparr>invoked := invoked w @ [(cmd, args)]\<rparr>))"

definition in_executor :: "env \<Rightarrow> offload_call \<Rightarrow> py_value io" where
  "in_executor env c w =
     (apply_effect env c,
      w\<lparr>offloaded := offloaded w @ [c], logged := logged w @ [Log_trace_executor]\<rparr>)"

section \<open>Identity Resolver (\<^verbatim>\<open>AvatarModify._fetch_member\<close>)\<close>

definition AvatarModify_fetch_member :: "env \<Rightarrow> nat \<Rightarrow> member option io" where
  "AvatarModify_fetch_member env mid w =
     (case guild_fetch_member env mid of
        Inr m \<Rightarrow> (Inr (Some m), w)
      | Inl f \<Rightarrow>
          if f = NotFound
            then (Inr None, w\<lparr>logged := logged w @ [Log_debug_member_left mid]\<rparr>)
          else if f = HTTPException
            then (Inr None, w\<lparr>logged := logged w @ [Log_exception_retrieve mid]\<rparr>)
          else (Inl f, w))"

section \<open>Avatar Effect Orchestrator (the command handlers)\<close>

definition could_not_get_member_info :: "env \<Rightarrow> str" where
  \<comment> \<open>\<^verbatim>\<open>f"{Emojis.cross_mark} Could not get member info."\<close>\<close>
  "could_not_get_member_info env = cross_mark env @ ustr '' Could not get member info.''"

definition attachment_url :: "str \<Rightarrow> str" where
  "attachment_url file_name = ustr ''attachment://'' @ file_name"

definition made_by :: "str \<Rightarrow> str" where
  "made_by who = ustr ''Made by '' @ who @ ustr ''.''"

text \<open>
  The handlers below follow the source statement by statement. The typing indicator
  (\<^verbatim>\<open>async with ctx.typing()\<close>) has no effect on the state modelled here, and a call to the
  real output sink is taken to succeed. The defaults \<^verbatim>\<open>option = "lgbt"\<close> and
  \<^verbatim>\<open>pixels = 64\<close> are filled in by the command framework before a handler runs.
  \<^verbatim>\<open>avatareasterify\<close> and \<^verbatim>\<open>send_pride_image\<close> pass \<^verbatim>\<open>name=\<close> to \<^verbatim>\<open>discord.Embed\<close>, which
  is not a field of an embed: their embeds have no title.
\<close>

definition Embed :: "str option \<Rightarrow> str option \<Rightarrow> nat option \<Rightarrow> embed" where
  \<comment> \<open>\<^verbatim>\<open>discord.Embed(title=..., description=..., colour=...)\<close>\<close>
  "Embed t d c = \<lparr>title = t, description = d, colour = c, image_url = None,
     footer_text = None, footer_icon = None, author_name = None, author_icon = None\<rparr>"

definition eightbit_command :: "env \<Rightarrow> ctx \<Rightarrow> unit io" where
  "eightbit_command env ctx =
     bind_io (AvatarModify_fetch_member env (member_id (author ctx))) (\<lambda>member.
       case member of
         None \<Rightarrow>
           bind_io (ctx_send_call [PStr (could_not_get_member_info env)] []) (\<lambda>_. returns ())
       | Some member \<Rightarrow>
           bind_io (await (read_avatar env member None)) (\<lambda>image_bytes.
           let file_name = file_safe_name (unicode env) (ustr ''eightbit_avatar'')
                             (display_name member) in
           bind_io (in_executor env
                      (Apply_effect image_bytes Eight_bitify_effect file_name [])) (\<lambda>file.
           let embed = Embed (Some (ustr ''Your 8-bit avatar''))
                 (Some (ustr ''Here is your avatar. I think it looks all cool and 'retro'.''))
                 None;
               embed = embed\<lparr>image_url := Some (attachment_url file_name)\<rparr>;
               embed = embed\<lparr>footer_text := Some (made_by (display_name member)),
                              footer_icon := Some (member_id member)\<rparr> in
           bind_io (ctx_send_call [] [(''embed'', PEmbed embed), (''file'', file)])
             (\<lambda>_. returns ()))))"

text \<open>
  The block \<^verbatim>\<open>if colours: ...\<close> of \<^verbatim>\<open>avatareasterify\<close> (the delegation bridge). Its
  result is \<open>None\<close> when the block leaves the command through its \<^verbatim>\<open>return\<close>, and
  \<open>Some egg\<close> when control goes on to the statements after it.
\<close>

definition assign_ctx_send :: "send_fn \<Rightarrow> world \<Rightarrow> world" where
  \<comment> \<open>\<^verbatim>\<open>ctx.send = f\<close>\<close>
  "assign_ctx_send f w = w\<lparr>ctx_send := f, assigned := assigned w @ [f]\<rparr>"

definition easterify_egg :: "env \<Rightarrow> py_value list \<Rightarrow> py_value option io" where
  "easterify_egg env colours w =
     (let egg = PNone in
      if colours \<noteq> [] then
        (let send_message = ctx_send w;
             w = assign_ctx_send Fake_send w in
         case ctx_invoke env ''eggdecorate'' colours w of
           (Inl f, w) \<Rightarrow> (Inl f, w)
         | (Inr egg, w) \<Rightarrow>
             if isinstance_str egg
             then bind_io (call_send send_message [egg] []) (\<lambda>_. returns None) w
             else (Inr (Some egg), assign_ctx_send send_message w))
      else (Inr (Some egg), w))"

text \<open>
  The statements of \<^verbatim>\<open>avatareasterify\<close> after that block: read the avatar, offload the
  effect with \<open>egg\<close>, build the embed and send the one reply.
\<close>

definition easterify_finish :: "env \<Rightarrow> member \<Rightarrow> py_value \<Rightarrow> unit io" where
  "easterify_finish env member egg =
     bind_io (await (read_avatar env member (Some 256))) (\<lambda>image_bytes.
     let file_name = file_safe_name (unicode env) (ustr ''easterified_avatar'')
                       (display_name member) in
     bind_io (in_executor env
                (Apply_effect image_bytes Easterify_effect file_name [egg])) (\<lambda>file.
     let embed = Embed None
           (Some (ustr ''Here is your lovely avatar, all bright and colourful\<newline>with Easter pastel colours. Enjoy :D''))
           None;
         embed = embed\<lparr>image_url := Some (attachment_url file_name)\<rparr>;
         embed = embed\<lparr>footer_text := Some (made_by (display_name member)),
                        footer_icon := Some (member_id member)\<rparr> in
     bind_io (ctx_send_call [] [(''file'', file), (''embed'', PEmbed embed)])
       (\<lambda>_. returns ())))"

definition avatareasterify :: "env \<Rightarrow> ctx \<Rightarrow> py_value list \<Rightarrow> unit io" where
  "avatareasterify env ctx colours =
     bind_io (AvatarModify_fetch_member env (member_id (author ctx))) (\<lambda>member.
       case member of
         None \<Rightarrow>
           bind_io (ctx_send_call [PStr (could_not_get_member_info env)] []) (\<lambda>_. returns ())
       | Some member \<Rightarrow>
           bind_io (easterify_egg env colours) (\<lambda>continue.
           case continue of
             None \<Rightarrow> returns ()
           | Some egg \<Rightarrow> easterify_finish env member egg))"

definition send_pride_image :: "env \<Rightarrow> ctx \<Rightarrow> bytes \<Rightarrow> int \<Rightarrow> str \<Rightarrow> str \<Rightarrow> unit io" where
  "send_pride_image env ctx image_bytes pixels flag option =
     (let file_name = file_safe_name (unicode env) (ustr ''pride_avatar'')
                        (display_name (author ctx)) in
      bind_io (in_executor env
                 (Apply_effect image_bytes Pridify_effect file_name
                    [PInt pixels, PStr flag])) (\<lambda>file.
      let embed = Embed None
            (Some (ustr ''Here is your lovely avatar, surrounded by\<newline> a beautiful ''
                   @ option @ ustr '' flag. Enjoy :D''))
            None;
          embed = embed\<lparr>image_url := Some (attachment_url file_name)\<rparr>;
          embed = embed\<lparr>footer_text := Some (made_by (display_name (author ctx))),
                         footer_icon := Some (member_id (author ctx))\<rparr> in
      bind_io (ctx_send_call [] [(''file'', file), (''embed'', PEmbed embed)])
        (\<lambda>_. returns ())))"

definition clamp_pixels :: "int \<Rightarrow> int" where
  \<comment> \<open>\<^verbatim>\<open>max(0, min(512, pixels))\<close>\<close>
  "clamp_pixels pixels = max 0 (min 512 pixels)"

definition prideavatar :: "env \<Rightarrow> ctx \<Rightarrow> str \<Rightarrow> int \<Rightarrow> unit io" where
  "prideavatar env ctx option pixels =
     (let option = str_lower env option;
          pixels = clamp_pixels pixels;
          flag = GENDER_OPTIONS env option in
      case flag of
        None \<Rightarrow>
          bind_io (ctx_send_call [PStr (ustr ''I don't have that flag!'')] []) (\<lambda>_. returns ())
      | Some flag \<Rightarrow>
          bind_io (AvatarModify_fetch_member env (member_id (author ctx))) (\<lambda>member.
            case member of
              None \<Rightarrow>
                bind_io (ctx_send_call [PStr (could_not_get_member_info env)] [])
                  (\<lambda>_. returns ())
            | Some member \<Rightarrow>
                bind_io (await (read_avatar env member (Some 1024))) (\<lambda>image_bytes.
                send_pride_image env ctx image_bytes pixels flag option)))"

text \<open>
  The sub-command \<^verbatim>\<open>image\<close> of \<^verbatim>\<open>prideavatar\<close> is \<open>prideavatar_image\<close> here.
  The handlers of its \<^verbatim>\<open>try\<close> block: a connection failure and an invalid
  URL are raised again as \<^verbatim>\<open>BadArgument\<close>; any other fault passes through.
\<close>

definition image_except :: "fault \<Rightarrow> fault" where
  "image_except f =
     (if f = ClientConnectorError then BadArgument (ustr ''Cannot connect to provided URL!'')
      else if f = InvalidURL then BadArgument (ustr ''Invalid URL!'')
      else f)"

definition prideavatar_image :: "env \<Rightarrow> ctx \<Rightarrow> str \<Rightarrow> str \<Rightarrow> int \<Rightarrow> unit io" where
  "prideavatar_image env ctx url option pixels =
     (let option = str_lower env option;
          pixels = clamp_pixels pixels;
          flag = GENDER_OPTIONS env option in
      case flag of
        None \<Rightarrow>
          bind_io (ctx_send_call [PStr (ustr ''I don't have that flag!'')] []) (\<lambda>_. returns ())
      | Some flag \<Rightarrow>
          (case http_get env url of
             Inl f \<Rightarrow> raises (image_except f)
           | Inr (status, body) \<Rightarrow>
               if status \<noteq> 200
               then bind_io (ctx_send_call [PStr (ustr ''Bad response from provided URL!'')] [])
                      (\<lambda>_. returns ())
               else (case body of
                       Inl f \<Rightarrow> raises (image_except f)
                     | Inr image_bytes \<Rightarrow>
                         send_pride_image env ctx image_bytes pixels flag option)))"

definition spookyavatar :: "env \<Rightarrow> ctx \<Rightarrow> member option \<Rightarrow> unit io" where
  "spookyavatar env ctx member =
     (let member = (case member of None \<Rightarrow> author ctx | Some m \<Rightarrow> m) in
      bind_io (AvatarModify_fetch_member env (member_id member)) (\<lambda>member.
        case member of
          None \<Rightarrow>
            bind_io (ctx_send_call [PStr (could_not_get_member_info env)] []) (\<lambda>_. returns ())
        | Some member \<Rightarrow>
            bind_io (await (read_avatar env member None)) (\<lambda>image_bytes.
            let file_name = file_safe_name (unicode env) (ustr ''spooky_avatar'')
                              (display_name member) in
            bind_io (in_executor env
                       (Apply_effect image_bytes Get_random_effect file_name [])) (\<lambda>file.
            let embed = Embed (Some (ustr ''Is this you or am I just really paranoid?''))
                  None (Some (soft_red env));
                embed = embed\<lparr>author_name := Some (member_name member),
                               author_icon := Some (member_id member)\<rparr>;
                embed = embed\<lparr>image_url := Some (attachment_url file_name)\<rparr>;
                embed = embed\<lparr>footer_text := Some (made_by (display_name (author ctx))),
                               footer_icon := Some (member_id (author ctx))\<rparr> in
            bind_io (ctx_send_call [] [(''file'', file), (''embed'', PEmbed embed)])
              (\<lambda>_. returns ())))))"

text \<open>
  A command run that ends normally after one plain text message to the real output sink
  and without a call to the worker pool.
\<close>

definition aborts_with_message :: "str \<Rightarrow> world \<Rightarrow> (fault + unit) \<times> world \<Rightarrow> bool" where
  "aborts_with_message msg w r \<longleftrightarrow>
     fst r = Inr () \<and> sent (snd r) = sent w @ [([PStr msg], [])] \<and> offloaded (snd r) = offloaded w"

section \<open>Sample collaborators\<close>

text \<open>
  A concrete environment on which the theorems below are run: the database fragment, a
  two-entry flag mapping, \<^verbatim>\<open>str.lower\<close> on ASCII letters, a guild that knows member 7,
  a URL that cannot be reached and one that is malformed, and an egg-decorating command
  that follows the convention of the delegation bridge: it reports a failure by
  returning what \<^verbatim>\<open>ctx.send(text)\<close> returned, and on success sends its egg as an
  attachment without text and returns the image.
\<close>

definition ascii_lower :: "str \<Rightarrow> str" where
  "ascii_lower s = map (\<lambda>c. if 65 \<le> c \<and> c \<le> 90 then c + 32 else c) s"

definition sample_member :: member where
  "sample_member = \<lparr>member_id = 7, member_name = ustr ''ada'', display_name = ustr ''Ada L''\<rparr>"

definition sample_ctx :: ctx where
  "sample_ctx = \<lparr>author = sample_member\<rparr>"

definition sample_eggdecorate :: "py_value list \<Rightarrow> script" where
  "sample_eggdecorate colours =
     (if length colours < 2
      then Send [PStr (ustr ''You must include at least 2 colours!'')] [] Return
      else Send [] [(''file'', PObject 2), (''embed'', PObject 3)] (\<lambda>_. Return (PObject 1)))"

definition sample_env :: env where
  "sample_env = \<lparr>
     unicode = ucd_fragment,
     cross_mark = ustr '':x:'',
     soft_red = 0xcd6d6d,
     GENDER_OPTIONS = [ustr ''lgbt'' \<mapsto> ustr ''gay_pride'', ustr ''trans'' \<mapsto> ustr ''transgender''],
     str_lower = ascii_lower,
     guild_fetch_member = (\<lambda>i. if i = 7 then Inr sample_member else Inl NotFound),
     read_avatar = (\<lambda>m size. Inr [137, 80, 78, 71]),
     http_get = (\<lambda>url.
       if url = ustr ''http://unreachable.example/a.png'' then Inl ClientConnectorError
       else if url = ustr ''not a url'' then Inl InvalidURL
       else Inr (200, Inr [137, 80, 78, 71])),
     apply_effect = (\<lambda>c. Inr (PObject 4)),
     get_command = (\<lambda>n. if n = ''eggdecorate'' then Some sample_eggdecorate else None) \<rparr>"

definition world0 :: world where
  "world0 = \<lparr>ctx_send = Real_send, sent = [], offloaded = [], invoked = [], assigned = [],
     logged = []\<rparr>"

section \<open>Properties of the Filename Sanitizer\<close>

lemma valid_filename_chars_iff:
  "c \<in> set valid_filename_chars \<longleftrightarrow> filename_class c \<or> c = 32"
  unfolding valid_filename_chars_def ascii_letters_def ascii_lowercase_def
    ascii_uppercase_def digits_def ustr_def filename_class_def
  apply simp
  by arith

lemma filename_class_ascii: "filename_class c \<Longrightarrow> c < 128"
  by (auto simp: filename_class_def)

text \<open>
  Reordering only moves combining marks past combining marks, and no ASCII character is
  one: the ASCII characters of a string keep their places relative to each other.
\<close>

lemma filter_insert_mark:
  assumes "\<forall>c<128. ccc c = 0"
  shows "filter (\<lambda>c. c < 128) (insert_mark ccc c xs) = filter (\<lambda>c. c < 128) (c # xs)"
  using assms by (induction xs) auto

lemma filter_canonical_ordering:
  assumes "\<forall>c<128. ccc c = 0"
  shows "filter (\<lambda>c. c < 128) (canonical_ordering ccc xs) = filter (\<lambda>c. c < 128) xs"
  using assms by (induction xs) (simp_all add: filter_insert_mark)

lemma encode_normalize:
  "ascii_stable u \<Longrightarrow>
   encode_ascii_ignore (normalize_NFKD u s) =
   filter (\<lambda>c. c < 128) (concat (map (decomposition u) s))"
  by (simp add: encode_ascii_ignore_def normalize_NFKD_def ascii_stable_def
      filter_canonical_ordering)

lemma decomposition_ascii:
  "ascii_stable u \<Longrightarrow> list_all (\<lambda>c. c < 128) s \<Longrightarrow> concat (map (decomposition u) s) = s"
  by (induction s) (simp_all add: ascii_stable_def)

lemma encode_normalize_ascii:
  "ascii_stable u \<Longrightarrow> list_all (\<lambda>c. c < 128) s \<Longrightarrow>
   encode_ascii_ignore (normalize_NFKD u s) = s"
  by (simp add: encode_normalize decomposition_ascii list_all_iff)

lemma encode_normalize_append:
  "ascii_stable u \<Longrightarrow>
   encode_ascii_ignore (normalize_NFKD u (xs @ ys)) =
   encode_ascii_ignore (normalize_NFKD u xs) @ encode_ascii_ignore (normalize_NFKD u ys)"
  by (simp add: encode_normalize)

lemma replace_spaces_append:
  "replace_spaces (xs @ ys) = replace_spaces xs @ replace_spaces ys"
  by (simp add: replace_spaces_def)

lemma replace_spaces_png: "replace_spaces (ustr ''.png'') = ustr ''.png''"
  by (simp add: replace_spaces_def ustr_def)

lemma png_valid:
  "filter (\<lambda>c. c \<in> set valid_filename_chars) (ustr ''.png'') = ustr ''.png''"
  by (simp add: valid_filename_chars_iff filename_class_def ustr_def)

lemma png_ascii: "list_all (\<lambda>c. c < 128) (ustr ''.png'')"
  by (simp add: ustr_def)

text \<open>The extension survives: the result is the cleaned stem followed by \<^verbatim>\<open>.png\<close>.\<close>

lemma file_safe_name_split:
  assumes "ascii_stable u"
  shows "file_safe_name u e n =
         filter (\<lambda>c. c \<in> set valid_filename_chars)
           (encode_ascii_ignore (normalize_NFKD u (replace_spaces (e @ ustr ''_'' @ n))))
         @ ustr ''.png''"
proof -
  have "FILENAME_STRING_format e n = (e @ ustr ''_'' @ n) @ ustr ''.png''"
    by (simp add: FILENAME_STRING_format_def)
  then show ?thesis
    using assms
    by (simp add: file_safe_name_def replace_spaces_append replace_spaces_png
        encode_normalize_append encode_normalize_ascii [OF _ png_ascii] png_valid
        del: append_assoc)
qed

lemma replace_spaces_safe:
  "ascii_safe s \<Longrightarrow> list_all filename_class (replace_spaces s)"
  by (induction s) (auto simp: ascii_safe_def replace_spaces_def filename_class_def)

lemma file_safe_name_ascii_safe:
  assumes u: "ascii_stable u" and e: "ascii_safe e" and n: "ascii_safe n"
  shows "file_safe_name u e n = replace_spaces (FILENAME_STRING_format e n)"
proof -
  let ?s = "replace_spaces (FILENAME_STRING_format e n)"
  have "ascii_safe (FILENAME_STRING_format e n)"
    using e n by (simp add: ascii_safe_def FILENAME_STRING_format_def ustr_def filename_class_def)
  then have cls: "list_all filename_class ?s" by (rule replace_spaces_safe)
  then have "list_all (\<lambda>c. c < 128) ?s"
    by (auto simp: list_all_iff filename_class_ascii)
  then have "encode_ascii_ignore (normalize_NFKD u ?s) = ?s"
    by (rule encode_normalize_ascii [OF u])
  moreover have "filter (\<lambda>c. c \<in> set valid_filename_chars) ?s = ?s"
    using cls by (auto simp: list_all_iff valid_filename_chars_iff intro: filter_True)
  ultimately show ?thesis by (simp add: file_safe_name_def)
qed

lemma effect_tags_safe: "e \<in> set effect_tags \<Longrightarrow> ascii_safe e"
  by (auto simp: effect_tags_def ascii_safe_def ustr_def filename_class_def)

lemma ascii_stable_fragment: "ascii_stable ucd_fragment"
  by (simp add: ascii_stable_def ucd_fragment_def)

lemma set_insert_mark: "set (insert_mark ccc c xs) = insert c (set xs)"
  by (induction xs) auto

lemma set_canonical_ordering: "set (canonical_ordering ccc xs) = set xs"
  by (induction xs) (simp_all add: set_insert_mark)

lemma stem_chars:
  assumes "c \<in> set (encode_ascii_ignore (normalize_NFKD u s))"
  shows "c < 128 \<and> (\<exists>d \<in> set s. c \<in> set (decomposition u d))"
  using assms
  by (auto simp: encode_ascii_ignore_def normalize_NFKD_def set_canonical_ordering)

lemmas sanitizer_eval =
  file_safe_name_def FILENAME_STRING_format_def replace_spaces_def normalize_NFKD_def
  encode_ascii_ignore_def valid_filename_chars_def ascii_letters_def ascii_lowercase_def
  ascii_uppercase_def digits_def ustr_def ucd_fragment_def

text \<open>
  What the function as written gives for every tag and every name: the filename ends in
  \<^verbatim>\<open>.png\<close>, is ASCII-only, and its characters are in \<^verbatim>\<open>valid_filename_chars\<close>. It matches
  \<^verbatim>\<open>^[A-Za-z0-9._-]*\.png$\<close> when no character of the tag or the name decomposes to
  something with a space.
\<close>

lemma file_safe_name_charset:
  assumes u: "ascii_stable u"
  shows "suffix (ustr ''.png'') (file_safe_name u e n)
       \<and> list_all (\<lambda>c. c < 128) (file_safe_name u e n)
       \<and> list_all (\<lambda>c. filename_class c \<or> c = 32) (file_safe_name u e n)
       \<and> ((\<forall>c \<in> set (e @ n). c \<noteq> 32 \<longrightarrow> 32 \<notin> set (decomposition u c))
            \<longrightarrow> matches_filename_regex (file_safe_name u e n))"
proof -
  let ?in = "replace_spaces (e @ ustr ''_'' @ n)"
  let ?stem = "filter (\<lambda>c. c \<in> set valid_filename_chars)
                 (encode_ascii_ignore (normalize_NFKD u ?in))"
  have split: "file_safe_name u e n = ?stem @ ustr ''.png''"
    by (rule file_safe_name_split [OF u])
  have stem_valid: "\<forall>c \<in> set ?stem. filename_class c \<or> c = 32"
    by (simp add: valid_filename_chars_iff)
  have png_cls: "list_all filename_class (ustr ''.png'')"
    by (simp add: ustr_def filename_class_def)
  have 1: "suffix (ustr ''.png'') (file_safe_name u e n)"
    unfolding split by (rule suffix_appendI) simp
  have 3: "list_all (\<lambda>c. filename_class c \<or> c = 32) (file_safe_name u e n)"
    unfolding split using stem_valid png_cls by (auto simp: list_all_iff)
  have 2: "list_all (\<lambda>c. c < 128) (file_safe_name u e n)"
    using 3 by (auto simp: list_all_iff dest: filename_class_ascii)
  have 4: "matches_filename_regex (file_safe_name u e n)"
    if no_space: "\<forall>c \<in> set (e @ n). c \<noteq> 32 \<longrightarrow> 32 \<notin> set (decomposition u c)"
  proof -
    have in_chars: "d \<noteq> 32 \<and> (d = 95 \<or> d \<in> set (e @ n))" if "d \<in> set ?in" for d
      using that by (auto simp: replace_spaces_def ustr_def)
    have "32 \<notin> set (decomposition u d)" if "d \<in> set ?in" for d
    proof (cases "d = 95")
      case True
      with u show ?thesis by (simp add: ascii_stable_def)
    next
      case False
      with in_chars [OF that] no_space show ?thesis by blast
    qed
    then have "32 \<notin> set ?stem"
      using stem_chars [of 32 u ?in] by auto
    with stem_valid have "list_all filename_class ?stem"
      by (auto simp: list_all_iff)
    moreover have "length (ustr ''.png'') = 4" by (simp add: ustr_def)
    ultimately show ?thesis
      using 1 unfolding matches_filename_regex_def split by simp
  qed
  from 1 2 3 4 show ?thesis by blast
qed

text \<open>
  On the name U+65E5 U+00E9 (no ASCII character) the filename is
  \<^verbatim>\<open>pride_avatar_e.png\<close>: the ideograph vanishes, the accented letter keeps its base.
  On U+65E5 U+672C everything is filtered out and the filename is \<^verbatim>\<open>pride_avatar_.png\<close>.
\<close>

lemma file_safe_name_charset_example:
  "ascii_stable ucd_fragment
   \<and> non_ascii_only [0x65E5, 0xE9]
   \<and> file_safe_name ucd_fragment (ustr ''pride_avatar'') [0x65E5, 0xE9] = ustr ''pride_avatar_e.png''
   \<and> matches_filename_regex (file_safe_name ucd_fragment (ustr ''pride_avatar'') [0x65E5, 0xE9])
   \<and> file_safe_name ucd_fragment (ustr ''pride_avatar'') [0x65E5, 0x672C] = ustr ''pride_avatar_.png''"
proof -
  have "\<forall>c \<in> set (ustr ''pride_avatar'' @ [0x65E5, 0xE9]). c \<noteq> 32 \<longrightarrow> 32 \<notin> set (decomposition ucd_fragment c)"
    by (simp add: ustr_def ucd_fragment_def)
  with file_safe_name_charset [OF ascii_stable_fragment, of "ustr ''pride_avatar''" "[0x65E5, 0xE9]"]
  have "matches_filename_regex (file_safe_name ucd_fragment (ustr ''pride_avatar'') [0x65E5, 0xE9])"
    by blast
  moreover have "file_safe_name ucd_fragment (ustr ''pride_avatar'') [0x65E5, 0xE9] = ustr ''pride_avatar_e.png''"
    by (simp add: sanitizer_eval)
  moreover have "file_safe_name ucd_fragment (ustr ''pride_avatar'') [0x65E5, 0x672C]
                   = ustr ''pride_avatar_.png''"
    by (simp add: sanitizer_eval)
  ultimately show ?thesis
    by (simp add: ascii_stable_fragment non_ascii_only_def)
qed

lemma matches_filename_regex_class:
  assumes "matches_filename_regex s"
  shows "list_all filename_class s"
proof -
  from assms obtain zs where s: "s = zs @ ustr ''.png''"
    by (auto simp: matches_filename_regex_def suffix_def)
  have "length (ustr ''.png'') = 4" by (simp add: ustr_def)
  with assms s have "list_all filename_class zs"
    by (simp add: matches_filename_regex_def)
  moreover have "list_all filename_class (ustr ''.png'')"
    by (simp add: ustr_def filename_class_def)
  ultimately show ?thesis by (simp add: s)
qed

text \<open>
  Claim C2 says that for a display name of non-ASCII characters only the filename matches
  \<^verbatim>\<open>^[A-Za-z0-9._-]*\.png$\<close> and never contains a space. The function replaces spaces
  (\<^verbatim>\<open>file_name.replace(" ", "_")\<close>) before it normalises, so a space that the
  compatibility decomposition of a non-ASCII character brings in is not replaced, and the
  whitelist lets it through: whenever the name has such a character, the filename
  contains a space and does not match.
\<close>

theorem file_safe_name_keeps_decomposed_space:
  assumes c: "c \<in> set n" and non_ascii: "128 \<le> c"
    and sp: "32 \<in> set (decomposition u c)"
  shows "32 \<in> set (file_safe_name u e n)
       \<and> \<not> matches_filename_regex (file_safe_name u e n)"
proof -
  let ?in = "replace_spaces (FILENAME_STRING_format e n)"
  have "c \<in> set ?in"
  proof -
    have "c \<in> set (FILENAME_STRING_format e n)"
      using c by (simp add: FILENAME_STRING_format_def)
    moreover have "c \<noteq> 32" using non_ascii by simp
    ultimately show ?thesis
      by (force simp: replace_spaces_def)
  qed
  with sp have "32 \<in> set (normalize_NFKD u ?in)"
    by (auto simp: normalize_NFKD_def set_canonical_ordering)
  then have "32 \<in> set (encode_ascii_ignore (normalize_NFKD u ?in))"
    by (simp add: encode_ascii_ignore_def)
  moreover have "32 \<in> set valid_filename_chars"
    by (simp add: valid_filename_chars_iff)
  ultimately have space: "32 \<in> set (file_safe_name u e n)"
    by (simp add: file_safe_name_def)
  have "\<not> filename_class 32" by (simp add: filename_class_def)
  with space have "\<not> list_all filename_class (file_safe_name u e n)"
    by (auto simp: list_all_iff)
  with matches_filename_regex_class have "\<not> matches_filename_regex (file_safe_name u e n)"
    by blast
  with space show ?thesis by simp
qed

text \<open>
  The display name U+00A8 (DIAERESIS, not an ASCII character): its compatibility
  decomposition is a space followed by U+0308, and the filename is
  \<^verbatim>\<open>pride_avatar_ .png\<close>, with a space.
\<close>

theorem file_safe_name_keeps_decomposed_space_witness:
  "(0xA8 :: codepoint) \<in> set [0xA8] \<and> (128 :: codepoint) \<le> 0xA8
   \<and> 32 \<in> set (decomposition ucd_fragment 0xA8)
   \<and> non_ascii_only [0xA8]
   \<and> file_safe_name ucd_fragment (ustr ''pride_avatar'') [0xA8] = ustr ''pride_avatar_ .png''
   \<and> 32 \<in> set (file_safe_name ucd_fragment (ustr ''pride_avatar'') [0xA8])
   \<and> \<not> matches_filename_regex (file_safe_name ucd_fragment (ustr ''pride_avatar'') [0xA8])"
proof -
  have c: "(0xA8 :: codepoint) \<in> set [0xA8]" and non_ascii: "(128 :: codepoint) \<le> 0xA8"
    by simp_all
  have sp: "32 \<in> set (decomposition ucd_fragment 0xA8)"
    by (simp add: ucd_fragment_def)
  have val: "file_safe_name ucd_fragment (ustr ''pride_avatar'') [0xA8]
               = ustr ''pride_avatar_ .png''"
    by (simp add: sanitizer_eval)
  have "non_ascii_only [0xA8]" by (simp add: non_ascii_only_def)
  with file_safe_name_keeps_decomposed_space [OF c non_ascii sp,
      of "ustr ''pride_avatar''"] c non_ascii sp val
  show ?thesis by simp
qed

text \<open>
  Claim C8. For every effect tag \<open>e\<close> of the module and every display name \<open>n\<close> whose
  characters are all letters, digits, \<^verbatim>\<open>.\<close>, \<^verbatim>\<open>_\<close>, \<^verbatim>\<open>-\<close> or spaces, the filename is
  \<^verbatim>\<open>f"{e}_{n}.png"\<close> with every space replaced by an underscore.
  (\<open>file_safe_name_ascii_safe\<close> above is the same equation for any \<open>e\<close> drawn from
  that alphabet.)
\<close>

theorem file_safe_name_ascii_safe_identity:
  assumes "ascii_stable u" and "e \<in> set effect_tags" and "ascii_safe n"
  shows "file_safe_name u e n = replace_spaces (e @ ustr ''_'' @ n @ ustr ''.png'')"
  using file_safe_name_ascii_safe [OF assms(1) effect_tags_safe [OF assms(2)] assms(3)]
  by (simp add: FILENAME_STRING_format_def)

theorem file_safe_name_ascii_safe_identity_witness:
  "ascii_stable ucd_fragment
   \<and> ustr ''pride_avatar'' \<in> set effect_tags
   \<and> ascii_safe (ustr ''Ada L-1.x'')
   \<and> file_safe_name ucd_fragment (ustr ''pride_avatar'') (ustr ''Ada L-1.x'')
       = ustr ''pride_avatar_Ada_L-1.x.png''"
proof -
  have e: "ustr ''pride_avatar'' \<in> set effect_tags" by (simp add: effect_tags_def)
  have n: "ascii_safe (ustr ''Ada L-1.x'')"
    by (simp add: ascii_safe_def ustr_def filename_class_def)
  show ?thesis
    using file_safe_name_ascii_safe_identity [OF ascii_stable_fragment e n] e n
    by (simp add: ascii_stable_fragment replace_spaces_def ustr_def)
qed

section \<open>Properties of the commands\<close>

subsection \<open>The stand-in and the delegated command\<close>

lemmas io_defs =
  bind_io_def returns_def raises_def await_def ctx_send_call_def call_send_def
  in_executor_def assign_ctx_send_def

lemma run_script_fake:
  "ctx_send w = Fake_send \<Longrightarrow> snd (run_script s w) = w"
proof (induction s arbitrary: w)
  case (Return v)
  then show ?case by (simp add: returns_def)
next
  case (Raise f)
  then show ?case by (simp add: raises_def)
next
  case (Send args kw k)
  have "run_script (Send args kw k) w = run_script (k (send args kw)) w"
    using Send.prems by (simp add: io_defs)
  moreover have "snd (run_script (k (send args kw)) w) = w"
    using Send.prems by (intro Send.IH) auto
  ultimately show ?case by simp
qed

lemma ctx_invoke_fake:
  assumes "ctx_send w = Fake_send" and "ctx_invoke env cmd args w = (r, w')"
  shows "ctx_send w' = Fake_send \<and> sent w' = sent w \<and> offloaded w' = offloaded w
         \<and> assigned w' = assigned w"
proof (cases "get_command env cmd")
  case None
  with assms show ?thesis by (auto simp: ctx_invoke_def)
next
  case (Some body)
  let ?w = "w\<lparr>invoked := invoked w @ [(cmd, args)]\<rparr>"
  have "snd (run_script (body args) ?w) = ?w"
    using assms(1) by (intro run_script_fake) simp
  moreover have "run_script (body args) ?w = (r, w')"
    using assms(2) Some by (simp add: ctx_invoke_def)
  ultimately have "w' = ?w" by simp
  with assms(1) show ?thesis by simp
qed

lemma ctx_invoke_convention_text:
  assumes "get_command env cmd = Some body" and "body args = Send (a # rest) kw Return"
    and "ctx_send w = Fake_send"
  shows "fst (ctx_invoke env cmd args w) = Inr a"
  using assms by (simp add: ctx_invoke_def io_defs send_def)

subsection \<open>The identity resolver\<close>

lemma fetch_member_found:
  "guild_fetch_member env mid = Inr m \<Longrightarrow>
   AvatarModify_fetch_member env mid w = (Inr (Some m), w)"
  by (simp add: AvatarModify_fetch_member_def)

lemma fetch_member_None_iff:
  "fst (AvatarModify_fetch_member env mid w) = Inr None \<longleftrightarrow>
   guild_fetch_member env mid = Inl NotFound \<or> guild_fetch_member env mid = Inl HTTPException"
  by (auto simp: AvatarModify_fetch_member_def split: sum.splits)

lemma send_text_real:
  "ctx_send w = Real_send \<Longrightarrow>
   bind_io (ctx_send_call [PStr msg] []) (\<lambda>_. returns ()) w
     = (Inr (), w\<lparr>sent := sent w @ [([PStr msg], [])]\<rparr>)"
  by (simp add: io_defs)

lemma fetch_member_None_world:
  assumes "fst (AvatarModify_fetch_member env mid w) = Inr None"
  obtains l where "AvatarModify_fetch_member env mid w = (Inr None, w\<lparr>logged := l\<rparr>)"
  using assms
  by (auto simp: AvatarModify_fetch_member_def split: sum.splits if_splits)

lemma eightbit_unavailable:
  assumes "ctx_send w = Real_send"
    and "fst (AvatarModify_fetch_member env (member_id (author ctx)) w) = Inr None"
  shows "aborts_with_message (could_not_get_member_info env) w (eightbit_command env ctx w)"
proof -
  from assms(2) obtain l
    where "AvatarModify_fetch_member env (member_id (author ctx)) w = (Inr None, w\<lparr>logged := l\<rparr>)"
    by (rule fetch_member_None_world)
  then show ?thesis
    using assms(1)
    by (simp add: eightbit_command_def aborts_with_message_def bind_io_def [of "AvatarModify_fetch_member _ _"]
        send_text_real)
qed

lemma easterify_unavailable:
  assumes "ctx_send w = Real_send"
    and "fst (AvatarModify_fetch_member env (member_id (author ctx)) w) = Inr None"
  shows "aborts_with_message (could_not_get_member_info env) w (avatareasterify env ctx colours w)"
proof -
  from assms(2) obtain l
    where "AvatarModify_fetch_member env (member_id (author ctx)) w = (Inr None, w\<lparr>logged := l\<rparr>)"
    by (rule fetch_member_None_world)
  then show ?thesis
    using assms(1)
    by (simp add: avatareasterify_def aborts_with_message_def bind_io_def [of "AvatarModify_fetch_member _ _"]
        send_text_real)
qed

lemma spooky_unavailable:
  assumes "ctx_send w = Real_send"
    and "fst (AvatarModify_fetch_member env
           (member_id (case target of None \<Rightarrow> author ctx | Some m \<Rightarrow> m)) w) = Inr None"
  shows "aborts_with_message (could_not_get_member_info env) w (spookyavatar env ctx target w)"
proof -
  from assms(2) obtain l
    where "AvatarModify_fetch_member env
           (member_id (case target of None \<Rightarrow> author ctx | Some m \<Rightarrow> m)) w = (Inr None, w\<lparr>logged := l\<rparr>)"
    by (rule fetch_member_None_world)
  then show ?thesis
    using assms(1)
    by (simp add: spookyavatar_def aborts_with_message_def bind_io_def [of "AvatarModify_fetch_member _ _"]
        send_text_real)
qed

lemma pride_unavailable:
  assumes "ctx_send w = Real_send"
    and "fst (AvatarModify_fetch_member env (member_id (author ctx)) w) = Inr None"
    and "GENDER_OPTIONS env (str_lower env option) = Some flag"
  shows "aborts_with_message (could_not_get_member_info env) w (prideavatar env ctx option pixels w)"
proof -
  from assms(2) obtain l
    where "AvatarModify_fetch_member env (member_id (author ctx)) w = (Inr None, w\<lparr>logged := l\<rparr>)"
    by (rule fetch_member_None_world)
  then show ?thesis
    using assms(1,3)
    by (simp add: prideavatar_def aborts_with_message_def bind_io_def [of "AvatarModify_fetch_member _ _"]
        send_text_real)
qed

lemmas sample_defs =
  sample_env_def sample_ctx_def sample_member_def sample_eggdecorate_def world0_def

lemmas command_eval =
  AvatarModify_fetch_member_def could_not_get_member_info_def eightbit_command_def
  avatareasterify_def easterify_egg_def easterify_finish_def send_pride_image_def
  prideavatar_def prideavatar_image_def image_except_def spookyavatar_def clamp_pixels_def
  ctx_invoke_def send_def Embed_def attachment_url_def made_by_def ascii_lower_def Let_def

lemma fetch_member_raises:
  "guild_fetch_member env mid = Inl f \<Longrightarrow> f \<noteq> NotFound \<Longrightarrow> f \<noteq> HTTPException \<Longrightarrow>
   AvatarModify_fetch_member env mid w = (Inl f, w)"
  by (simp add: AvatarModify_fetch_member_def)

text \<open>
  Claim C3, as amended. When the platform reports that the member id no longer belongs to
  the guild (\<open>NotFound\<close>), or raises any other \<^verbatim>\<open>discord.HTTPException\<close>, the identity
  resolver returns \<open>None\<close> and raises neither. Any other fault of the platform call (a
  timeout, a connection error: not an \<^verbatim>\<open>HTTPException\<close>) is raised to the caller, and
  the command that called the resolver ends with that fault, the state unchanged: no
  message, no offload. Whenever the resolver returns \<open>None\<close> to a command that was entered
  with \<^verbatim>\<open>ctx.send\<close> the original output function, the command (\<open>eightbit_command\<close>,
  \<open>avatareasterify\<close>, \<open>spookyavatar\<close>, and \<open>prideavatar\<close> when its option names a known
  flag) sends the single message "could not get member info" and ends with no call to the
  offload gateway.
\<close>

theorem member_unavailable_aborts:
  "(guild_fetch_member env mid = Inl NotFound \<or> guild_fetch_member env mid = Inl HTTPException
            \<longrightarrow> fst (AvatarModify_fetch_member env mid w) = Inr None)
       \<and> (ctx_send w = Real_send
            \<and> fst (AvatarModify_fetch_member env (member_id (author ctx)) w) = Inr None \<longrightarrow>
            aborts_with_message (could_not_get_member_info env) w (eightbit_command env ctx w)
          \<and> aborts_with_message (could_not_get_member_info env) w
               (avatareasterify env ctx colours w)
          \<and> aborts_with_message (could_not_get_member_info env) w (spookyavatar env ctx None w)
          \<and> (GENDER_OPTIONS env (str_lower env option) = Some flag \<longrightarrow>
               aborts_with_message (could_not_get_member_info env) w
                 (prideavatar env ctx option pixels w)))
       \<and> (ctx_send w = Real_send
            \<and> fst (AvatarModify_fetch_member env (member_id target) w) = Inr None \<longrightarrow>
            aborts_with_message (could_not_get_member_info env) w
              (spookyavatar env ctx (Some target) w))
       \<and> (guild_fetch_member env mid = Inl f \<and> f \<noteq> NotFound \<and> f \<noteq> HTTPException \<longrightarrow>
            AvatarModify_fetch_member env mid w = (Inl f, w))
       \<and> (guild_fetch_member env (member_id (author ctx)) = Inl f
            \<and> f \<noteq> NotFound \<and> f \<noteq> HTTPException \<longrightarrow>
            eightbit_command env ctx w = (Inl f, w)
          \<and> avatareasterify env ctx colours w = (Inl f, w)
          \<and> spookyavatar env ctx None w = (Inl f, w)
          \<and> (GENDER_OPTIONS env (str_lower env option) = Some flag \<longrightarrow>
               prideavatar env ctx option pixels w = (Inl f, w)))
       \<and> (guild_fetch_member env (member_id target) = Inl f
            \<and> f \<noteq> NotFound \<and> f \<noteq> HTTPException \<longrightarrow>
            spookyavatar env ctx (Some target) w = (Inl f, w))"
proof -
  have 1: "fst (AvatarModify_fetch_member env mid w) = Inr None"
    if "guild_fetch_member env mid = Inl NotFound \<or> guild_fetch_member env mid = Inl HTTPException"
    using that by (simp add: fetch_member_None_iff)
  have 2: "aborts_with_message (could_not_get_member_info env) w (eightbit_command env ctx w)
          \<and> aborts_with_message (could_not_get_member_info env) w
               (avatareasterify env ctx colours w)
          \<and> aborts_with_message (could_not_get_member_info env) w (spookyavatar env ctx None w)
          \<and> (GENDER_OPTIONS env (str_lower env option) = Some flag \<longrightarrow>
               aborts_with_message (could_not_get_member_info env) w
                 (prideavatar env ctx option pixels w))"
    if real: "ctx_send w = Real_send"
      and none: "fst (AvatarModify_fetch_member env (member_id (author ctx)) w) = Inr None"
    using eightbit_unavailable [OF real none] easterify_unavailable [OF real none]
      pride_unavailable [OF real none] spooky_unavailable [OF real, where target = None] none
    by simp
  have 3: "aborts_with_message (could_not_get_member_info env) w
              (spookyavatar env ctx (Some target) w)"
    if real: "ctx_send w = Real_send"
      and none: "fst (AvatarModify_fetch_member env (member_id target) w) = Inr None"
    using spooky_unavailable [OF real, where target = "Some target"] none by simp
  have 4: "AvatarModify_fetch_member env mid w = (Inl f, w)"
    if "guild_fetch_member env mid = Inl f \<and> f \<noteq> NotFound \<and> f \<noteq> HTTPException"
    using that by (simp add: fetch_member_raises)
  have 5: "eightbit_command env ctx w = (Inl f, w)
          \<and> avatareasterify env ctx colours w = (Inl f, w)
          \<and> spookyavatar env ctx None w = (Inl f, w)
          \<and> (GENDER_OPTIONS env (str_lower env option) = Some flag \<longrightarrow>
               prideavatar env ctx option pixels w = (Inl f, w))"
    if "guild_fetch_member env (member_id (author ctx)) = Inl f
          \<and> f \<noteq> NotFound \<and> f \<noteq> HTTPException"
    using that
    by (simp add: eightbit_command_def avatareasterify_def spookyavatar_def prideavatar_def
        bind_io_def [of "AvatarModify_fetch_member _ _"] fetch_member_raises)
  have 6: "spookyavatar env ctx (Some target) w = (Inl f, w)"
    if "guild_fetch_member env (member_id target) = Inl f
          \<and> f \<noteq> NotFound \<and> f \<noteq> HTTPException"
    using that
    by (simp add: spookyavatar_def bind_io_def [of "AvatarModify_fetch_member _ _"]
        fetch_member_raises)
  from 1 2 3 4 5 6 show ?thesis by blast
qed

text \<open>
  A guild whose fetch fails with an HTTP fault: the resolver returns \<open>None\<close>, logged as
  an exception, and the commands end after the one message. A guild whose fetch times
  out: the resolver and the command end with that fault.
\<close>

theorem member_unavailable_aborts_witness:
  "ctx_send world0 = Real_send
   \<and> guild_fetch_member (sample_env\<lparr>guild_fetch_member := \<lambda>i. Inl HTTPException\<rparr>)
        (member_id (author sample_ctx)) = Inl HTTPException
   \<and> fst (AvatarModify_fetch_member (sample_env\<lparr>guild_fetch_member := \<lambda>i. Inl HTTPException\<rparr>)
        (member_id (author sample_ctx)) world0) = Inr None
   \<and> eightbit_command (sample_env\<lparr>guild_fetch_member := \<lambda>i. Inl HTTPException\<rparr>) sample_ctx world0
       = (Inr (), world0\<lparr>sent := [([PStr (ustr '':x: Could not get member info.'')], [])],
                         logged := [Log_exception_retrieve 7]\<rparr>)
   \<and> aborts_with_message (ustr '':x: Could not get member info.'') world0
        (avatareasterify (sample_env\<lparr>guild_fetch_member := \<lambda>i. Inl HTTPException\<rparr>) sample_ctx
           [PStr (ustr ''red''), PStr (ustr ''blue'')] world0)
   \<and> aborts_with_message (ustr '':x: Could not get member info.'') world0
        (prideavatar (sample_env\<lparr>guild_fetch_member := \<lambda>i. Inl HTTPException\<rparr>) sample_ctx
           (ustr ''Trans'') 64 world0)
   \<and> aborts_with_message (ustr '':x: Could not get member info.'') world0
        (spookyavatar (sample_env\<lparr>guild_fetch_member := \<lambda>i. Inl HTTPException\<rparr>) sample_ctx
           (Some sample_member) world0)
   \<and> AvatarModify_fetch_member
        (sample_env\<lparr>guild_fetch_member := \<lambda>i. Inl (OtherFault (ustr ''TimeoutError''))\<rparr>)
        (member_id (author sample_ctx)) world0
       = (Inl (OtherFault (ustr ''TimeoutError'')), world0)
   \<and> prideavatar
        (sample_env\<lparr>guild_fetch_member := \<lambda>i. Inl (OtherFault (ustr ''TimeoutError''))\<rparr>)
        sample_ctx (ustr ''Trans'') 64 world0
       = (Inl (OtherFault (ustr ''TimeoutError'')), world0)"
proof -
  let ?env = "sample_env\<lparr>guild_fetch_member := \<lambda>i. Inl HTTPException\<rparr>"
  have real: "ctx_send world0 = Real_send" by (simp add: world0_def)
  have fault: "guild_fetch_member ?env mid = Inl NotFound
     \<or> guild_fetch_member ?env mid = Inl HTTPException" for mid
    by simp
  have flag: "GENDER_OPTIONS ?env (str_lower ?env (ustr ''Trans'')) = Some (ustr ''transgender'')"
    by (simp add: sample_env_def ascii_lower_def ustr_def)
  have msg: "could_not_get_member_info ?env = ustr '':x: Could not get member info.''"
    by (simp add: could_not_get_member_info_def sample_env_def ustr_def)
  have run: "eightbit_command ?env sample_ctx world0
       = (Inr (), world0\<lparr>sent := [([PStr (ustr '':x: Could not get member info.'')], [])],
                         logged := [Log_exception_retrieve 7]\<rparr>)"
    by (simp add: command_eval io_defs sample_defs ustr_def)
  from member_unavailable_aborts [where w = world0 and env = ?env and ctx = sample_ctx
      and mid = "member_id (author sample_ctx)" and target = sample_member
      and colours = "[PStr (ustr ''red''), PStr (ustr ''blue'')]"
      and option = "ustr ''Trans''" and pixels = 64 and flag = "ustr ''transgender''"
      and f = NotFound]
    fault [of "member_id (author sample_ctx)"] flag real
  have "fst (AvatarModify_fetch_member ?env (member_id (author sample_ctx)) world0) = Inr None
     \<and> aborts_with_message (could_not_get_member_info ?env) world0
         (avatareasterify ?env sample_ctx [PStr (ustr ''red''), PStr (ustr ''blue'')] world0)
     \<and> aborts_with_message (could_not_get_member_info ?env) world0
         (prideavatar ?env sample_ctx (ustr ''Trans'') 64 world0)
     \<and> (fst (AvatarModify_fetch_member ?env (member_id sample_member) world0) = Inr None \<longrightarrow>
         aborts_with_message (could_not_get_member_info ?env) world0
           (spookyavatar ?env sample_ctx (Some sample_member) world0))"
    by blast
  moreover have "member_id sample_member = member_id (author sample_ctx)"
    by (simp add: sample_ctx_def)
  moreover
  let ?env' = "sample_env\<lparr>guild_fetch_member := \<lambda>i. Inl (OtherFault (ustr ''TimeoutError''))\<rparr>"
  have fetch': "guild_fetch_member ?env' (member_id (author sample_ctx))
                  = Inl (OtherFault (ustr ''TimeoutError''))"
    by simp
  have flag': "GENDER_OPTIONS ?env' (str_lower ?env' (ustr ''Trans'')) = Some (ustr ''transgender'')"
    by (simp add: sample_env_def ascii_lower_def ustr_def)
  from member_unavailable_aborts [where w = world0 and env = ?env' and ctx = sample_ctx
      and mid = "member_id (author sample_ctx)" and target = sample_member
      and colours = "[]" and f = "OtherFault (ustr ''TimeoutError'')"
      and option = "ustr ''Trans''" and pixels = 64 and flag = "ustr ''transgender''"]
    fetch' flag'
  have "AvatarModify_fetch_member ?env' (member_id (author sample_ctx)) world0
          = (Inl (OtherFault (ustr ''TimeoutError'')), world0)
      \<and> prideavatar ?env' sample_ctx (ustr ''Trans'') 64 world0
          = (Inl (OtherFault (ustr ''TimeoutError'')), world0)"
    by blast
  ultimately show ?thesis
    using real run by (simp add: msg)
qed

text \<open>
  The claim as stated fails: a fault of the platform call that is not an
  \<^verbatim>\<open>HTTPException\<close> is raised by the resolver and leaves the command, which has sent
  nothing.
\<close>

theorem fetch_member_other_fault_counterexample:
  "fst (AvatarModify_fetch_member
          (sample_env\<lparr>guild_fetch_member := \<lambda>i. Inl (OtherFault (ustr ''TimeoutError''))\<rparr>)
          (member_id (author sample_ctx)) world0)
     = Inl (OtherFault (ustr ''TimeoutError''))
   \<and> fst (eightbit_command
          (sample_env\<lparr>guild_fetch_member := \<lambda>i. Inl (OtherFault (ustr ''TimeoutError''))\<rparr>)
          sample_ctx world0)
     = Inl (OtherFault (ustr ''TimeoutError''))
   \<and> sent (snd (eightbit_command
          (sample_env\<lparr>guild_fetch_member := \<lambda>i. Inl (OtherFault (ustr ''TimeoutError''))\<rparr>)
          sample_ctx world0)) = []"
  by (simp add: eightbit_command_def AvatarModify_fetch_member_def bind_io_def world0_def)

subsection \<open>The flag-border commands\<close>

text \<open>
  Claim C4. When the option, lowercased, is not a key of the flag mapping, the
  flag-border command and its URL sub-form send "I don't have that flag!" and end; nothing
  else of the state changes, so the offload gateway has received no call.
\<close>

theorem unknown_flag_aborts:
  assumes "GENDER_OPTIONS env (str_lower env option) = None" and "ctx_send w = Real_send"
  shows "prideavatar env ctx option pixels w
           = (Inr (), w\<lparr>sent := sent w @ [([PStr (ustr ''I don't have that flag!'')], [])]\<rparr>)
       \<and> prideavatar_image env ctx url option pixels w
           = (Inr (), w\<lparr>sent := sent w @ [([PStr (ustr ''I don't have that flag!'')], [])]\<rparr>)
       \<and> offloaded (snd (prideavatar env ctx option pixels w)) = offloaded w
       \<and> offloaded (snd (prideavatar_image env ctx url option pixels w)) = offloaded w"
  using assms by (simp add: prideavatar_def prideavatar_image_def send_text_real)

theorem unknown_flag_aborts_witness:
  "GENDER_OPTIONS sample_env (str_lower sample_env (ustr ''Not_A_Flag'')) = None
   \<and> ctx_send world0 = Real_send
   \<and> prideavatar sample_env sample_ctx (ustr ''Not_A_Flag'') 64 world0
       = (Inr (), world0\<lparr>sent := [([PStr (ustr ''I don't have that flag!'')], [])]\<rparr>)
   \<and> prideavatar_image sample_env sample_ctx (ustr ''http://unreachable.example/a.png'')
        (ustr ''Not_A_Flag'') 64 world0
       = (Inr (), world0\<lparr>sent := [([PStr (ustr ''I don't have that flag!'')], [])]\<rparr>)
   \<and> offloaded (snd (prideavatar sample_env sample_ctx (ustr ''Not_A_Flag'') 64 world0)) = []"
proof -
  have none: "GENDER_OPTIONS sample_env (str_lower sample_env (ustr ''Not_A_Flag'')) = None"
    by (simp add: sample_env_def ascii_lower_def ustr_def)
  have real: "ctx_send world0 = Real_send" by (simp add: world0_def)
  have "sent world0 = []" "offloaded world0 = []" by (simp_all add: world0_def)
  with unknown_flag_aborts [OF none real, of sample_ctx 64
      "ustr ''http://unreachable.example/a.png''"] none real
  show ?thesis by simp
qed

lemma send_pride_image_offloaded:
  "offloaded (snd (send_pride_image env ctx b px flag opt w))
     = offloaded w @ [Apply_effect b Pridify_effect
         (file_safe_name (unicode env) (ustr ''pride_avatar'') (display_name (author ctx)))
         [PInt px, PStr flag]]"
  by (simp add: send_pride_image_def io_defs Let_def split: sum.splits send_fn.splits)

text \<open>
  Claim C5. For every integer \<open>p\<close> the thickness used by the flag-border commands is
  \<open>max 0 (min 512 p)\<close>: -10 gives 0, 9999 gives 512, 64 stays 64; that value is the one
  handed to the effect when the command gets as far as the offload; and a run on \<open>p\<close> is
  the run on the clamped value, so no out-of-range number raises an error.
\<close>

theorem border_thickness_clamped:
  "clamp_pixels p = max 0 (min 512 p)
   \<and> 0 \<le> clamp_pixels p \<and> clamp_pixels p \<le> 512
   \<and> clamp_pixels (- 10) = 0 \<and> clamp_pixels 9999 = 512 \<and> clamp_pixels 64 = 64
   \<and> prideavatar env ctx option p w = prideavatar env ctx option (max 0 (min 512 p)) w
   \<and> prideavatar_image env ctx url option p w = prideavatar_image env ctx url option (max 0 (min 512 p)) w
   \<and> (GENDER_OPTIONS env (str_lower env option) = Some flag
        \<and> guild_fetch_member env (member_id (author ctx)) = Inr m
        \<and> read_avatar env m (Some 1024) = Inr b
      \<longrightarrow> offloaded (snd (prideavatar env ctx option p w))
            = offloaded w @ [Apply_effect b Pridify_effect
                (file_safe_name (unicode env) (ustr ''pride_avatar'') (display_name (author ctx)))
                [PInt (max 0 (min 512 p)), PStr flag]])
   \<and> (GENDER_OPTIONS env (str_lower env option) = Some flag
        \<and> http_get env url = Inr (200, Inr b)
      \<longrightarrow> offloaded (snd (prideavatar_image env ctx url option p w))
            = offloaded w @ [Apply_effect b Pridify_effect
                (file_safe_name (unicode env) (ustr ''pride_avatar'') (display_name (author ctx)))
                [PInt (max 0 (min 512 p)), PStr flag]])"
proof -
  have idem: "clamp_pixels (max 0 (min 512 p)) = clamp_pixels p"
    by (simp add: clamp_pixels_def)
  have 1: "prideavatar env ctx option p w = prideavatar env ctx option (max 0 (min 512 p)) w"
    by (simp only: prideavatar_def idem)
  have 2: "prideavatar_image env ctx url option p w = prideavatar_image env ctx url option (max 0 (min 512 p)) w"
    by (simp only: prideavatar_image_def idem)
  have 3: "offloaded (snd (prideavatar env ctx option p w))
            = offloaded w @ [Apply_effect b Pridify_effect
                (file_safe_name (unicode env) (ustr ''pride_avatar'') (display_name (author ctx)))
                [PInt (max 0 (min 512 p)), PStr flag]]"
    if "GENDER_OPTIONS env (str_lower env option) = Some flag"
      and "guild_fetch_member env (member_id (author ctx)) = Inr m"
      and "read_avatar env m (Some 1024) = Inr b"
    using that
    by (simp add: prideavatar_def bind_io_def [of "AvatarModify_fetch_member _ _"]
        bind_io_def [of "await _"] await_def
        fetch_member_found send_pride_image_offloaded clamp_pixels_def)
  have 4: "offloaded (snd (prideavatar_image env ctx url option p w))
            = offloaded w @ [Apply_effect b Pridify_effect
                (file_safe_name (unicode env) (ustr ''pride_avatar'') (display_name (author ctx)))
                [PInt (max 0 (min 512 p)), PStr flag]]"
    if "GENDER_OPTIONS env (str_lower env option) = Some flag"
      and "http_get env url = Inr (200, Inr b)"
    using that
    by (simp add: prideavatar_image_def send_pride_image_offloaded clamp_pixels_def)
  have 0: "clamp_pixels p = max 0 (min 512 p) \<and> 0 \<le> clamp_pixels p \<and> clamp_pixels p \<le> 512
     \<and> clamp_pixels (- 10) = 0 \<and> clamp_pixels 9999 = 512 \<and> clamp_pixels 64 = 64"
    by (simp add: clamp_pixels_def)
  from 0 1 2 3 4 show ?thesis by blast
qed

theorem border_thickness_clamped_witness:
  "GENDER_OPTIONS sample_env (str_lower sample_env (ustr ''LGBT'')) = Some (ustr ''gay_pride'')
   \<and> guild_fetch_member sample_env (member_id (author sample_ctx)) = Inr sample_member
   \<and> read_avatar sample_env sample_member (Some 1024) = Inr [137, 80, 78, 71]
   \<and> offloaded (snd (prideavatar sample_env sample_ctx (ustr ''LGBT'') 9999 world0))
       = [Apply_effect [137, 80, 78, 71] Pridify_effect (ustr ''pride_avatar_Ada_L.png'')
            [PInt 512, PStr (ustr ''gay_pride'')]]
   \<and> http_get sample_env (ustr ''http://example.org/a.png'') = Inr (200, Inr [137, 80, 78, 71])
   \<and> offloaded (snd (prideavatar_image sample_env sample_ctx (ustr ''http://example.org/a.png'')
        (ustr ''LGBT'') (- 10) world0))
       = [Apply_effect [137, 80, 78, 71] Pridify_effect (ustr ''pride_avatar_Ada_L.png'')
            [PInt 0, PStr (ustr ''gay_pride'')]]"
proof -
  have flag: "GENDER_OPTIONS sample_env (str_lower sample_env (ustr ''LGBT'')) = Some (ustr ''gay_pride'')"
    by (simp add: sample_env_def ascii_lower_def ustr_def)
  have fetch: "guild_fetch_member sample_env (member_id (author sample_ctx)) = Inr sample_member"
    by (simp add: sample_defs)
  have rd: "read_avatar sample_env sample_member (Some 1024) = Inr [137, 80, 78, 71]"
    by (simp add: sample_env_def)
  have get: "http_get sample_env (ustr ''http://example.org/a.png'') = Inr (200, Inr [137, 80, 78, 71])"
    by (simp add: sample_env_def ustr_def)
  have name: "file_safe_name (unicode sample_env) (ustr ''pride_avatar'')
                (display_name (author sample_ctx)) = ustr ''pride_avatar_Ada_L.png''"
    by (simp add: sample_defs sanitizer_eval)
  have w0: "offloaded world0 = []" by (simp add: world0_def)
  from border_thickness_clamped [where p = 9999 and env = sample_env and ctx = sample_ctx
      and option = "ustr ''LGBT''" and w = world0 and flag = "ustr ''gay_pride''"
      and m = sample_member and b = "[137, 80, 78, 71]"
      and url = "ustr ''http://example.org/a.png''"] flag fetch rd
  have "offloaded (snd (prideavatar sample_env sample_ctx (ustr ''LGBT'') 9999 world0))
       = offloaded world0 @ [Apply_effect [137, 80, 78, 71] Pridify_effect
           (file_safe_name (unicode sample_env) (ustr ''pride_avatar'')
              (display_name (author sample_ctx)))
           [PInt (max 0 (min 512 9999)), PStr (ustr ''gay_pride'')]]"
    by blast
  then have a: "offloaded (snd (prideavatar sample_env sample_ctx (ustr ''LGBT'') 9999 world0))
       = [Apply_effect [137, 80, 78, 71] Pridify_effect (ustr ''pride_avatar_Ada_L.png'')
            [PInt 512, PStr (ustr ''gay_pride'')]]"
    by (simp add: name w0)
  from border_thickness_clamped [where p = "- 10" and env = sample_env and ctx = sample_ctx
      and option = "ustr ''LGBT''" and w = world0 and flag = "ustr ''gay_pride''"
      and m = sample_member and b = "[137, 80, 78, 71]"
      and url = "ustr ''http://example.org/a.png''"] flag get
  have "offloaded (snd (prideavatar_image sample_env sample_ctx (ustr ''http://example.org/a.png'')
        (ustr ''LGBT'') (- 10) world0))
       = offloaded world0 @ [Apply_effect [137, 80, 78, 71] Pridify_effect
           (file_safe_name (unicode sample_env) (ustr ''pride_avatar'')
              (display_name (author sample_ctx)))
           [PInt (max 0 (min 512 (- 10))), PStr (ustr ''gay_pride'')]]"
    by blast
  then have b: "offloaded (snd (prideavatar_image sample_env sample_ctx (ustr ''http://example.org/a.png'')
        (ustr ''LGBT'') (- 10) world0))
       = [Apply_effect [137, 80, 78, 71] Pridify_effect (ustr ''pride_avatar_Ada_L.png'')
            [PInt 0, PStr (ustr ''gay_pride'')]]"
    by (simp add: name w0)
  from flag fetch rd get a b show ?thesis by simp
qed

text \<open>
  Claim C9. The flag-border command and its URL sub-form behave on an option \<open>s\<close> as on
  \<open>s.lower()\<close>: the option is lowercased before the lookup, the unknown-option decision
  and the reply text. (\<^verbatim>\<open>str.lower\<close> is a parameter; that lowercasing a lowercased string
  changes nothing is the hypothesis.)
\<close>

theorem flag_option_case_insensitive:
  assumes "str_lower env (str_lower env s) = str_lower env s"
  shows "prideavatar env ctx s p w = prideavatar env ctx (str_lower env s) p w
       \<and> prideavatar_image env ctx url s p w = prideavatar_image env ctx url (str_lower env s) p w"
  using assms by (simp add: prideavatar_def prideavatar_image_def)

theorem flag_option_case_insensitive_witness:
  "str_lower sample_env (str_lower sample_env (ustr ''LGBT'')) = str_lower sample_env (ustr ''LGBT'')
   \<and> str_lower sample_env (ustr ''LGBT'') = ustr ''lgbt''
   \<and> prideavatar sample_env sample_ctx (ustr ''LGBT'') 64 world0
       = prideavatar sample_env sample_ctx (ustr ''lgbt'') 64 world0
   \<and> prideavatar_image sample_env sample_ctx (ustr ''not a url'') (ustr ''LGBT'') 64 world0
       = prideavatar_image sample_env sample_ctx (ustr ''not a url'') (ustr ''lgbt'') 64 world0"
proof -
  have low: "str_lower sample_env (ustr ''LGBT'') = ustr ''lgbt''"
    by (simp add: sample_env_def ascii_lower_def ustr_def)
  have idem: "str_lower sample_env (str_lower sample_env (ustr ''LGBT''))
                = str_lower sample_env (ustr ''LGBT'')"
    by (simp add: sample_env_def ascii_lower_def ustr_def)
  from flag_option_case_insensitive [OF idem, of sample_ctx 64 world0 "ustr ''not a url''"]
    low idem
  show ?thesis by simp
qed

text \<open>
  Claim C7, as amended. In the URL sub-form, when the option names a known flag and the
  request, or reading a response of status 200, raises a fault, the handler sends no
  message and starts no offload work (the state is unchanged), and a fault is raised out of
  the command handler: \<^verbatim>\<open>BadArgument("Cannot connect to provided URL!")\<close> for a
  \<^verbatim>\<open>ClientConnectorError\<close>, \<^verbatim>\<open>BadArgument("Invalid URL!")\<close> for an \<^verbatim>\<open>InvalidURL\<close>, and
  the fault itself, unchanged, for any other (a malformed URL that the HTTP client
  rejects with another exception is of this kind).
\<close>

theorem image_url_fault_raises_bad_argument:
  assumes "GENDER_OPTIONS env (str_lower env option) = Some flag"
    and "http_get env url = Inl f \<or> http_get env url = Inr (200, Inl f)"
  shows "prideavatar_image env ctx url option pixels w =
           (Inl (if f = ClientConnectorError
                   then BadArgument (ustr ''Cannot connect to provided URL!'')
                 else if f = InvalidURL
                   then BadArgument (ustr ''Invalid URL!'')
                 else f), w)"
  using assms by (auto simp: prideavatar_image_def image_except_def raises_def)

text \<open>
  A malformed URL that raises \<^verbatim>\<open>InvalidURL\<close>, a URL that cannot be reached, and a URL
  for which the client raises another exception.
\<close>

theorem image_url_fault_raises_bad_argument_witness:
  "GENDER_OPTIONS sample_env (str_lower sample_env (ustr ''LGBT'')) = Some (ustr ''gay_pride'')
   \<and> http_get sample_env (ustr ''not a url'') = Inl InvalidURL
   \<and> prideavatar_image sample_env sample_ctx (ustr ''not a url'') (ustr ''LGBT'') 64 world0
       = (Inl (BadArgument (ustr ''Invalid URL!'')), world0)
   \<and> http_get sample_env (ustr ''http://unreachable.example/a.png'') = Inl ClientConnectorError
   \<and> prideavatar_image sample_env sample_ctx (ustr ''http://unreachable.example/a.png'')
        (ustr ''LGBT'') 64 world0
       = (Inl (BadArgument (ustr ''Cannot connect to provided URL!'')), world0)
   \<and> prideavatar_image
        (sample_env\<lparr>http_get := \<lambda>u. Inr (200, Inl (OtherFault (ustr ''AssertionError'')))\<rparr>)
        sample_ctx (ustr ''//127.0.0.1/x'') (ustr ''LGBT'') 64 world0
       = (Inl (OtherFault (ustr ''AssertionError'')), world0)"
proof -
  let ?env = "sample_env\<lparr>http_get := \<lambda>u. Inr (200, Inl (OtherFault (ustr ''AssertionError'')))\<rparr>"
  have flag: "GENDER_OPTIONS sample_env (str_lower sample_env (ustr ''LGBT'')) = Some (ustr ''gay_pride'')"
    by (simp add: sample_env_def ascii_lower_def ustr_def)
  have flag': "GENDER_OPTIONS ?env (str_lower ?env (ustr ''LGBT'')) = Some (ustr ''gay_pride'')"
    by (simp add: sample_env_def ascii_lower_def ustr_def)
  have get1: "http_get sample_env (ustr ''not a url'') = Inl InvalidURL"
    by (simp add: sample_env_def ustr_def)
  have get2: "http_get sample_env (ustr ''http://unreachable.example/a.png'')
                = Inl ClientConnectorError"
    by (simp add: sample_env_def ustr_def)
  have get3: "http_get ?env (ustr ''//127.0.0.1/x'')
                = Inr (200, Inl (OtherFault (ustr ''AssertionError'')))"
    by simp
  from image_url_fault_raises_bad_argument [OF flag disjI1 [OF get1], of sample_ctx 64 world0]
    image_url_fault_raises_bad_argument [OF flag disjI1 [OF get2], of sample_ctx 64 world0]
    image_url_fault_raises_bad_argument [OF flag' disjI2 [OF get3], of sample_ctx 64 world0]
    flag get1 get2
  show ?thesis by simp
qed

text \<open>
  The claim as stated fails: on a URL that cannot be reached the handler ends with the
  fault \<^verbatim>\<open>BadArgument\<close> and has sent nothing.
\<close>

theorem image_fault_escapes_counterexample:
  "fst (prideavatar_image sample_env sample_ctx (ustr ''http://unreachable.example/a.png'')
          (ustr ''lgbt'') 64 world0)
     = Inl (BadArgument (ustr ''Cannot connect to provided URL!''))
   \<and> sent (snd (prideavatar_image sample_env sample_ctx (ustr ''http://unreachable.example/a.png'')
          (ustr ''lgbt'') 64 world0)) = []"
  by (simp add: prideavatar_image_def image_except_def raises_def sample_defs ascii_lower_def ustr_def)

subsection \<open>The delegation bridge of \<^verbatim>\<open>avatareasterify\<close>\<close>

lemma easterify_egg_text:
  assumes "ctx_send w = Real_send" and "colours \<noteq> []"
    and "ctx_invoke env ''eggdecorate'' colours (assign_ctx_send Fake_send w) = (Inr (PStr t), w')"
  shows "easterify_egg env colours w = (Inr None, w'\<lparr>sent := sent w' @ [([PStr t], [])]\<rparr>)"
  using assms by (simp add: easterify_egg_def bind_io_def returns_def call_send_def)

lemma easterify_egg_fault:
  assumes "colours \<noteq> []"
    and "ctx_invoke env ''eggdecorate'' colours (assign_ctx_send Fake_send w) = (Inl f, w')"
  shows "easterify_egg env colours w = (Inl f, w')"
  using assms by (simp add: easterify_egg_def)

lemma easterify_egg_artifact:
  assumes "colours \<noteq> []"
    and "ctx_invoke env ''eggdecorate'' colours (assign_ctx_send Fake_send w) = (Inr egg, w')"
    and "\<not> isinstance_str egg"
  shows "easterify_egg env colours w = (Inr (Some egg), assign_ctx_send (ctx_send w) w')"
  using assms by (simp add: easterify_egg_def)

lemma easterify_egg_empty: "easterify_egg env [] w = (Inr (Some PNone), w)"
  by (simp add: easterify_egg_def)

lemma avatareasterify_found:
  "guild_fetch_member env (member_id (author ctx)) = Inr m \<Longrightarrow>
   avatareasterify env ctx colours w =
     (case easterify_egg env colours w of
        (Inl f, w') \<Rightarrow> (Inl f, w')
      | (Inr None, w') \<Rightarrow> (Inr (), w')
      | (Inr (Some egg), w') \<Rightarrow> easterify_finish env m egg w')"
  by (simp add: avatareasterify_def bind_io_def fetch_member_found returns_def
      split: prod.splits sum.splits option.splits)

lemma easterify_finish_world:
  "easterify_finish env m egg w = (r, w') \<Longrightarrow>
   ctx_send w' = ctx_send w \<and> assigned w' = assigned w \<and> invoked w' = invoked w"
  by (auto simp: easterify_finish_def io_defs Let_def split: sum.splits send_fn.splits)

lemma easterify_finish_offloaded:
  "read_avatar env m (Some 256) = Inr b \<Longrightarrow>
   offloaded (snd (easterify_finish env m egg w))
     = offloaded w @ [Apply_effect b Easterify_effect
         (file_safe_name (unicode env) (ustr ''easterified_avatar'') (display_name m)) [egg]]"
  by (simp add: easterify_finish_def io_defs Let_def split: sum.splits send_fn.splits)

lemma easterify_finish_success:
  assumes "ctx_send w = Real_send"
    and "read_avatar env m (Some 256) = Inr b"
    and "apply_effect env (Apply_effect b Easterify_effect
           (file_safe_name (unicode env) (ustr ''easterified_avatar'') (display_name m)) [egg])
         = Inr fobj"
  shows "fst (easterify_finish env m egg w) = Inr ()
       \<and> (\<exists>e. sent (snd (easterify_finish env m egg w))
                = sent w @ [([], [(''file'', fobj), (''embed'', PEmbed e)])])"
  using assms by (simp add: easterify_finish_def io_defs Let_def)

lemma sample_invoke_text:
  "ctx_invoke sample_env ''eggdecorate'' [PStr (ustr ''nocolour'')] (assign_ctx_send Fake_send world0)
   = (Inr (PStr (ustr ''You must include at least 2 colours!'')),
      world0\<lparr>ctx_send := Fake_send, assigned := [Fake_send],
        invoked := [(''eggdecorate'', [PStr (ustr ''nocolour'')])]\<rparr>)"
  by (simp add: ctx_invoke_def sample_defs io_defs send_def)

lemma sample_invoke_artifact:
  "ctx_invoke sample_env ''eggdecorate'' [PStr (ustr ''red''), PStr (ustr ''blue'')]
     (assign_ctx_send Fake_send world0)
   = (Inr (PObject 1),
      world0\<lparr>ctx_send := Fake_send, assigned := [Fake_send],
        invoked := [(''eggdecorate'', [PStr (ustr ''red''), PStr (ustr ''blue'')])]\<rparr>)"
  by (simp add: ctx_invoke_def sample_defs io_defs send_def)

text \<open>
  Claim C6. The stand-in returns its first positional argument and \<open>None\<close> when it has
  none, so a delegated command that returns what \<^verbatim>\<open>ctx.send(text)\<close> gave it hands the text
  to the bridge; while the delegated command runs, the real output sink receives no call;
  a captured string is relayed through the real sink and the command ends without offload;
  any other captured value lets the command go on to its own success path, which
  offloads the effect with that value and sends the one reply.
\<close>

theorem delegation_bridge_capture:
  assumes real: "ctx_send w = Real_send"
    and fetch: "guild_fetch_member env (member_id (author ctx)) = Inr m"
    and colours: "colours \<noteq> []"
    and inv: "ctx_invoke env ''eggdecorate'' colours (assign_ctx_send Fake_send w) = (r, w')"
  shows "send (a # args) kw = a \<and> send [] kw = PNone
       \<and> ctx_send_call (a # args) kw (assign_ctx_send Fake_send w)
           = (Inr a, assign_ctx_send Fake_send w)
       \<and> (get_command env ''eggdecorate'' = Some body
            \<and> body colours = Send (PStr t # args) kw Return \<longrightarrow> r = Inr (PStr t))
       \<and> sent w' = sent w
       \<and> (r = Inr (PStr t) \<longrightarrow>
            avatareasterify env ctx colours w
              = (Inr (), w'\<lparr>sent := sent w @ [([PStr t], [])]\<rparr>)
            \<and> offloaded w' = offloaded w)
       \<and> (r = Inr egg \<and> \<not> isinstance_str egg \<longrightarrow>
            avatareasterify env ctx colours w
              = easterify_finish env m egg (assign_ctx_send Real_send w'))
       \<and> (r = Inr egg \<and> \<not> isinstance_str egg
            \<and> read_avatar env m (Some 256) = Inr b
            \<and> apply_effect env (Apply_effect b Easterify_effect
                 (file_safe_name (unicode env) (ustr ''easterified_avatar'') (display_name m))
                 [egg]) = Inr fobj
          \<longrightarrow> fst (avatareasterify env ctx colours w) = Inr ()
            \<and> offloaded (snd (avatareasterify env ctx colours w))
                = offloaded w @ [Apply_effect b Easterify_effect
                    (file_safe_name (unicode env) (ustr ''easterified_avatar'') (display_name m))
                    [egg]]
            \<and> (\<exists>e. sent (snd (avatareasterify env ctx colours w))
                     = sent w @ [([], [(''file'', fobj), (''embed'', PEmbed e)])]))"
proof -
  let ?w1 = "assign_ctx_send Fake_send w"
  have fake1: "ctx_send ?w1 = Fake_send" by (simp add: assign_ctx_send_def)
  from ctx_invoke_fake [OF fake1 inv]
  have w': "sent w' = sent w" "offloaded w' = offloaded w"
    by (simp_all add: assign_ctx_send_def)
  have 1: "send (a # args) kw = a \<and> send [] kw = PNone"
    by (simp add: send_def)
  have 2: "ctx_send_call (a # args) kw ?w1 = (Inr a, ?w1)"
    by (simp add: ctx_send_call_def call_send_def send_def assign_ctx_send_def)
  have 3: "r = Inr (PStr t)"
    if "get_command env ''eggdecorate'' = Some body \<and> body colours = Send (PStr t # args) kw Return"
    using ctx_invoke_convention_text [of env "''eggdecorate''" body colours "PStr t" args kw ?w1]
      that fake1 inv by simp
  have 4: "avatareasterify env ctx colours w = (Inr (), w'\<lparr>sent := sent w @ [([PStr t], [])]\<rparr>)"
    if "r = Inr (PStr t)"
    using easterify_egg_text [OF real colours, of env t w'] inv that w'
    by (simp add: avatareasterify_found [OF fetch])
  have 5: "avatareasterify env ctx colours w
             = easterify_finish env m egg (assign_ctx_send Real_send w')"
    if "r = Inr egg \<and> \<not> isinstance_str egg"
    using easterify_egg_artifact [OF colours, of env w egg w'] inv that real
    by (simp add: avatareasterify_found [OF fetch])
  have 6: "fst (avatareasterify env ctx colours w) = Inr ()
            \<and> offloaded (snd (avatareasterify env ctx colours w))
                = offloaded w @ [Apply_effect b Easterify_effect
                    (file_safe_name (unicode env) (ustr ''easterified_avatar'') (display_name m))
                    [egg]]
            \<and> (\<exists>e. sent (snd (avatareasterify env ctx colours w))
                     = sent w @ [([], [(''file'', fobj), (''embed'', PEmbed e)])])"
    if h: "r = Inr egg \<and> \<not> isinstance_str egg
            \<and> read_avatar env m (Some 256) = Inr b
            \<and> apply_effect env (Apply_effect b Easterify_effect
                 (file_safe_name (unicode env) (ustr ''easterified_avatar'') (display_name m))
                 [egg]) = Inr fobj"
  proof -
    let ?w2 = "assign_ctx_send Real_send w'"
    have eq: "avatareasterify env ctx colours w = easterify_finish env m egg ?w2"
      using 5 h by simp
    have r2: "ctx_send ?w2 = Real_send" by (simp add: assign_ctx_send_def)
    have s2: "sent ?w2 = sent w" "offloaded ?w2 = offloaded w"
      using w' by (simp_all add: assign_ctx_send_def)
    from easterify_finish_success [OF r2, of env m b egg fobj]
      easterify_finish_offloaded [of env m b egg ?w2] h
    show ?thesis unfolding eq s2 by simp
  qed
  from 1 2 3 w' 4 5 6 show ?thesis by blast
qed

theorem delegation_bridge_capture_witness:
  "ctx_send world0 = Real_send
   \<and> fst (ctx_invoke sample_env ''eggdecorate'' [PStr (ustr ''red''), PStr (ustr ''blue'')]
           (assign_ctx_send Fake_send world0)) = Inr (PObject 1)
   \<and> fst (avatareasterify sample_env sample_ctx [PStr (ustr ''red''), PStr (ustr ''blue'')] world0)
       = Inr ()
   \<and> offloaded (snd (avatareasterify sample_env sample_ctx
          [PStr (ustr ''red''), PStr (ustr ''blue'')] world0))
       = [Apply_effect [137, 80, 78, 71] Easterify_effect (ustr ''easterified_avatar_Ada_L.png'')
            [PObject 1]]
   \<and> length (sent (snd (avatareasterify sample_env sample_ctx
          [PStr (ustr ''red''), PStr (ustr ''blue'')] world0))) = 1
   \<and> fst (ctx_invoke sample_env ''eggdecorate'' [PStr (ustr ''nocolour'')]
           (assign_ctx_send Fake_send world0))
       = Inr (PStr (ustr ''You must include at least 2 colours!''))
   \<and> avatareasterify sample_env sample_ctx [PStr (ustr ''nocolour'')] world0
       = (Inr (), world0\<lparr>ctx_send := Fake_send, assigned := [Fake_send],
            invoked := [(''eggdecorate'', [PStr (ustr ''nocolour'')])],
            sent := [([PStr (ustr ''You must include at least 2 colours!'')], [])]\<rparr>)"
proof -
  have real: "ctx_send world0 = Real_send" by (simp add: world0_def)
  have fetch: "guild_fetch_member sample_env (member_id (author sample_ctx)) = Inr sample_member"
    by (simp add: sample_defs)
  have name: "file_safe_name (unicode sample_env) (ustr ''easterified_avatar'')
                (display_name sample_member) = ustr ''easterified_avatar_Ada_L.png''"
    by (simp add: sample_defs sanitizer_eval)
  have rd: "read_avatar sample_env sample_member (Some 256) = Inr [137, 80, 78, 71]"
    by (simp add: sample_env_def)
  have ap: "apply_effect sample_env c = Inr (PObject 4)" for c
    by (simp add: sample_env_def)
  have w0: "sent world0 = []" "offloaded world0 = []" by (simp_all add: world0_def)
  have ne: "[PStr (ustr ''red''), PStr (ustr ''blue'')] \<noteq> []" "[PStr (ustr ''nocolour'')] \<noteq> []"
    by simp_all
  have nostr: "\<not> isinstance_str (PObject 1)" by simp
  let ?fin = "avatareasterify sample_env sample_ctx [PStr (ustr ''red''), PStr (ustr ''blue'')] world0"
  from delegation_bridge_capture [OF real fetch ne(1) sample_invoke_artifact,
      where egg = "PObject 1" and b = "[137, 80, 78, 71]" and fobj = "PObject 4"
      and a = PNone and args = "[]" and kw = "[]" and body = sample_eggdecorate
      and t = "[]"] rd ap nostr
  have "fst ?fin = Inr ()
      \<and> offloaded (snd ?fin) = offloaded world0 @ [Apply_effect [137, 80, 78, 71] Easterify_effect
          (file_safe_name (unicode sample_env) (ustr ''easterified_avatar'')
             (display_name sample_member)) [PObject 1]]
      \<and> (\<exists>e. sent (snd ?fin)
               = sent world0 @ [([], [(''file'', PObject 4), (''embed'', PEmbed e)])])"
    by blast
  then have art: "fst (avatareasterify sample_env sample_ctx
                   [PStr (ustr ''red''), PStr (ustr ''blue'')] world0) = Inr ()
     \<and> offloaded (snd (avatareasterify sample_env sample_ctx
          [PStr (ustr ''red''), PStr (ustr ''blue'')] world0))
       = [Apply_effect [137, 80, 78, 71] Easterify_effect (ustr ''easterified_avatar_Ada_L.png'')
            [PObject 1]]
     \<and> length (sent (snd (avatareasterify sample_env sample_ctx
          [PStr (ustr ''red''), PStr (ustr ''blue'')] world0))) = 1"
    by (auto simp: name w0)
  from delegation_bridge_capture [OF real fetch ne(2) sample_invoke_text,
      where t = "ustr ''You must include at least 2 colours!''" and egg = PNone
      and b = "[]" and fobj = PNone
      and a = PNone and args = "[]" and kw = "[]" and body = sample_eggdecorate]
  have "avatareasterify sample_env sample_ctx [PStr (ustr ''nocolour'')] world0
       = (Inr (), world0\<lparr>ctx_send := Fake_send, assigned := [Fake_send],
            invoked := [(''eggdecorate'', [PStr (ustr ''nocolour'')])]\<rparr>
            \<lparr>sent := sent world0 @ [([PStr (ustr ''You must include at least 2 colours!'')], [])]\<rparr>)"
    by blast
  then have relay: "avatareasterify sample_env sample_ctx [PStr (ustr ''nocolour'')] world0
       = (Inr (), world0\<lparr>ctx_send := Fake_send, assigned := [Fake_send],
            invoked := [(''eggdecorate'', [PStr (ustr ''nocolour'')])],
            sent := [([PStr (ustr ''You must include at least 2 colours!'')], [])]\<rparr>)"
    by (simp add: w0)
  from real art relay show ?thesis
    by (simp add: sample_invoke_artifact sample_invoke_text)
qed

text \<open>
  Claim C1 says that \<^verbatim>\<open>ctx.send\<close> refers to the original output function again on every
  exit from the delegation step. The code restores it on the fall-through path only
  (\<open>easterify_egg_artifact\<close>). When the delegated command returns a string, or when the
  invocation raises, the command is left with \<^verbatim>\<open>ctx.send\<close> still the stand-in:
\<close>

theorem avatareasterify_send_not_restored:
  assumes real: "ctx_send w = Real_send"
    and fetch: "guild_fetch_member env (member_id (author ctx)) = Inr m"
    and colours: "colours \<noteq> []"
    and inv: "ctx_invoke env ''eggdecorate'' colours (assign_ctx_send Fake_send w) = (r, w')"
    and exit: "(\<exists>f. r = Inl f) \<or> (\<exists>t. r = Inr (PStr t))"
  shows "ctx_send (snd (avatareasterify env ctx colours w)) = Fake_send"
proof -
  have fake: "ctx_send w' = Fake_send"
    using ctx_invoke_fake [OF _ inv] by (simp add: assign_ctx_send_def)
  from exit show ?thesis
  proof
    assume "\<exists>f. r = Inl f"
    then obtain f where "r = Inl f" ..
    with inv have "easterify_egg env colours w = (Inl f, w')"
      by (intro easterify_egg_fault [OF colours]) simp
    with fake show ?thesis by (simp add: avatareasterify_found [OF fetch])
  next
    assume "\<exists>t. r = Inr (PStr t)"
    then obtain t where "r = Inr (PStr t)" ..
    with inv have "easterify_egg env colours w = (Inr None, w'\<lparr>sent := sent w' @ [([PStr t], [])]\<rparr>)"
      by (intro easterify_egg_text [OF real colours]) simp
    with fake show ?thesis by (simp add: avatareasterify_found [OF fetch])
  qed
qed

theorem avatareasterify_send_not_restored_witness:
  "ctx_send world0 = Real_send
   \<and> fst (avatareasterify sample_env sample_ctx [PStr (ustr ''nocolour'')] world0) = Inr ()
   \<and> sent (snd (avatareasterify sample_env sample_ctx [PStr (ustr ''nocolour'')] world0))
       = [([PStr (ustr ''You must include at least 2 colours!'')], [])]
   \<and> ctx_send (snd (avatareasterify sample_env sample_ctx [PStr (ustr ''nocolour'')] world0))
       = Fake_send"
proof -
  have real: "ctx_send world0 = Real_send" by (simp add: world0_def)
  have fetch: "guild_fetch_member sample_env (member_id (author sample_ctx)) = Inr sample_member"
    by (simp add: sample_defs)
  have "ctx_send (snd (avatareasterify sample_env sample_ctx [PStr (ustr ''nocolour'')] world0))
       = Fake_send"
    using avatareasterify_send_not_restored [OF real fetch _ sample_invoke_text] by simp
  moreover have "avatareasterify sample_env sample_ctx [PStr (ustr ''nocolour'')] world0
    = (Inr (), world0\<lparr>ctx_send := Fake_send, assigned := [Fake_send],
        invoked := [(''eggdecorate'', [PStr (ustr ''nocolour'')])],
        sent := [([PStr (ustr ''You must include at least 2 colours!'')], [])]\<rparr>)"
    using easterify_egg_text [OF real _ sample_invoke_text]
    by (simp add: avatareasterify_found [OF fetch] world0_def)
  ultimately show ?thesis using real by simp
qed

lemma avatareasterify_world:
  "colours = [] \<Longrightarrow> avatareasterify env ctx colours w = (r, w') \<Longrightarrow>
   ctx_send w' = ctx_send w \<and> assigned w' = assigned w \<and> invoked w' = invoked w"
  by (auto simp: avatareasterify_def AvatarModify_fetch_member_def easterify_egg_empty
      bind_io_def returns_def ctx_send_call_def call_send_def
      dest: easterify_finish_world
      split: sum.splits option.splits if_splits send_fn.splits prod.splits)

text \<open>
  Claim C10. With an empty colour list the delegation bridge is not engaged: the block
  leaves the state as it is, nothing is assigned to \<^verbatim>\<open>ctx.send\<close>, no command is invoked,
  and the effect is offloaded with \<open>egg = None\<close>; a run that assigns to \<^verbatim>\<open>ctx.send\<close> has
  a non-empty colour list.
\<close>

theorem avatareasterify_no_colours:
  "easterify_egg env [] w = (Inr (Some PNone), w)
   \<and> ctx_send (snd (avatareasterify env ctx [] w)) = ctx_send w
   \<and> assigned (snd (avatareasterify env ctx [] w)) = assigned w
   \<and> invoked (snd (avatareasterify env ctx [] w)) = invoked w
   \<and> (guild_fetch_member env (member_id (author ctx)) = Inr m \<longrightarrow>
        avatareasterify env ctx [] w = easterify_finish env m PNone w)
   \<and> (guild_fetch_member env (member_id (author ctx)) = Inr m
        \<and> read_avatar env m (Some 256) = Inr b \<longrightarrow>
        offloaded (snd (avatareasterify env ctx [] w))
          = offloaded w @ [Apply_effect b Easterify_effect
              (file_safe_name (unicode env) (ustr ''easterified_avatar'') (display_name m))
              [PNone]])
   \<and> (assigned (snd (avatareasterify env ctx colours w)) \<noteq> assigned w \<longrightarrow> colours \<noteq> [])"
proof -
  have fin: "avatareasterify env ctx [] w = easterify_finish env m PNone w"
    if "guild_fetch_member env (member_id (author ctx)) = Inr m" for m
    using that by (simp add: avatareasterify_found easterify_egg_empty)
  have frame: "ctx_send (snd (avatareasterify env ctx [] w)) = ctx_send w
     \<and> assigned (snd (avatareasterify env ctx [] w)) = assigned w
     \<and> invoked (snd (avatareasterify env ctx [] w)) = invoked w"
    using avatareasterify_world [of "[]" env ctx w] by (cases "avatareasterify env ctx [] w") simp
  have only: "colours \<noteq> []" if "assigned (snd (avatareasterify env ctx colours w)) \<noteq> assigned w"
    using that frame by auto
  show ?thesis
    using fin frame only by (simp add: easterify_egg_empty easterify_finish_offloaded)
qed

theorem avatareasterify_no_colours_witness:
  "guild_fetch_member sample_env (member_id (author sample_ctx)) = Inr sample_member
   \<and> read_avatar sample_env sample_member (Some 256) = Inr [137, 80, 78, 71]
   \<and> offloaded (snd (avatareasterify sample_env sample_ctx [] world0))
       = [Apply_effect [137, 80, 78, 71] Easterify_effect (ustr ''easterified_avatar_Ada_L.png'')
            [PNone]]
   \<and> ctx_send (snd (avatareasterify sample_env sample_ctx [] world0)) = Real_send
   \<and> assigned (snd (avatareasterify sample_env sample_ctx [] world0)) = []
   \<and> invoked (snd (avatareasterify sample_env sample_ctx [] world0)) = []
   \<and> assigned (snd (avatareasterify sample_env sample_ctx
        [PStr (ustr ''red''), PStr (ustr ''blue'')] world0)) = [Fake_send, Real_send]"
proof -
  have fetch: "guild_fetch_member sample_env (member_id (author sample_ctx)) = Inr sample_member"
    by (simp add: sample_defs)
  have rd: "read_avatar sample_env sample_member (Some 256) = Inr [137, 80, 78, 71]"
    by (simp add: sample_env_def)
  have name: "file_safe_name (unicode sample_env) (ustr ''easterified_avatar'')
                (display_name sample_member) = ustr ''easterified_avatar_Ada_L.png''"
    by (simp add: sample_defs sanitizer_eval)
  have w0: "ctx_send world0 = Real_send" "assigned world0 = []" "invoked world0 = []"
    "offloaded world0 = []"
    by (simp_all add: world0_def)
  have two: "assigned (snd (avatareasterify sample_env sample_ctx
        [PStr (ustr ''red''), PStr (ustr ''blue'')] world0)) = [Fake_send, Real_send]"
    using easterify_egg_artifact [OF _ sample_invoke_artifact]
      easterify_finish_world [of sample_env sample_member "PObject 1"
        "assign_ctx_send Real_send (world0\<lparr>ctx_send := Fake_send, assigned := [Fake_send],
        invoked := [(''eggdecorate'', [PStr (ustr ''red''), PStr (ustr ''blue'')])]\<rparr>)"]
    by (cases "easterify_finish sample_env sample_member (PObject 1)
        (assign_ctx_send Real_send (world0\<lparr>ctx_send := Fake_send, assigned := [Fake_send],
        invoked := [(''eggdecorate'', [PStr (ustr ''red''), PStr (ustr ''blue'')])]\<rparr>))")
      (simp add: avatareasterify_found [OF fetch] w0 assign_ctx_send_def)
  let ?run = "avatareasterify sample_env sample_ctx [] world0"
  from avatareasterify_no_colours [where env = sample_env and ctx = sample_ctx and w = world0
      and m = sample_member and b = "[137, 80, 78, 71]" and colours = "[]"] fetch rd
  have "offloaded (snd ?run) = offloaded world0 @ [Apply_effect [137, 80, 78, 71] Easterify_effect
            (file_safe_name (unicode sample_env) (ustr ''easterified_avatar'')
               (display_name sample_member)) [PNone]]
      \<and> ctx_send (snd ?run) = ctx_send world0
      \<and> assigned (snd ?run) = assigned world0
      \<and> invoked (snd ?run) = invoked world0"
    by blast
  with fetch rd two show ?thesis by (simp add: name w0)
qed

end
